theory Spec2Isabelle
  imports Main "HOL-Library.Word" "HOL-Library.AList"
begin

unbundle bit_operations_syntax

section \<open>Messages (internal/models/message.go, internal/models/errors.go)\<close>

text \<open>
  A Go map is a reference: two struct fields may hold the same map, and a write through
  one is seen through the other. The header and context maps of messages therefore live in
  a store, addressed by natural numbers, and a message holds addresses (\<open>None\<close> is the
  nil map). Message structs themselves are values here: in the Go code \<open>Clone\<close> and
  \<open>NewMessage\<close> return a pointer to a newly allocated struct that nobody else holds,
  and a queue only ever receives such a clone. The payload is an \<open>interface{}\<close> value,
  kept as the type parameter \<open>'v\<close>.

  \<open>generateID\<close> reads crypto/rand and \<open>time.Now\<close> reads the clock; both are inputs
  from outside the program. The store carries them as oracles: \<open>rand_Read st i\<close> is the
  outcome of the \<open>i\<close>-th read of 16 random bytes (\<open>None\<close> when the read fails) and
  \<open>time_Now st i\<close> the \<open>i\<close>-th clock reading in nanoseconds.
\<close>

type_synonym addr = nat

record 'v Message =
  msg_ID :: string
  msg_Payload :: 'v
  msg_Topic :: string
  msg_Headers :: "addr option"
  msg_Timestamp :: int
  msg_Source :: string
  msg_Target :: string
  msg_Context :: "addr option"

record 'v Store =
  hdr_maps :: "addr \<rightharpoonup> (string \<rightharpoonup> string)"
  ctx_maps :: "addr \<rightharpoonup> (string \<rightharpoonup> 'v)"
  next_addr :: addr
  rand_Read :: "nat \<Rightarrow> 8 word list option"
  rand_pos :: nat
  time_Now :: "nat \<Rightarrow> int"
  time_pos :: nat

definition hexdigit :: "nat \<Rightarrow> char" where
  "hexdigit n = ''0123456789abcdef'' ! (n mod 16)"

definition hex_byte :: "8 word \<Rightarrow> string" where
  "hex_byte b = [hexdigit (unat (drop_bit 4 b)), hexdigit (unat (b AND 15))]"

definition EncodeToString :: "8 word list \<Rightarrow> string" where
  "EncodeToString bs = concat (map hex_byte bs)"

fun dec_digits :: "nat \<Rightarrow> string" where
  "dec_digits n = (if n < 10 then [''0123456789'' ! n]
                   else dec_digits (n div 10) @ [''0123456789'' ! (n mod 10)])"

declare dec_digits.simps [simp del]

definition Sprintf_d :: "int \<Rightarrow> string" where
  "Sprintf_d i = (if i < 0 then CHR ''-'' # dec_digits (nat (- i)) else dec_digits (nat i))"

text \<open>\<open>time.Now()\<close>: the next clock reading.\<close>

definition Now :: "'v Store \<Rightarrow> int \<times> 'v Store" where
  "Now st = (time_Now st (time_pos st), st\<lparr>time_pos := Suc (time_pos st)\<rparr>)"

text \<open>
  \<open>generateID\<close>: 16 bytes from crypto/rand in hexadecimal; when the read fails, the
  text \<open>id_\<close> followed by the clock reading.
\<close>

definition generateID :: "'v Store \<Rightarrow> string \<times> 'v Store" where
  "generateID st =
     (let st1 = st\<lparr>rand_pos := Suc (rand_pos st)\<rparr>
      in case rand_Read st (rand_pos st) of
           None \<Rightarrow> (let (t, st2) = Now st1 in (''id_'' @ Sprintf_d t, st2))
         | Some bytes \<Rightarrow> (EncodeToString bytes, st1))"

text \<open>\<open>make(map[string]string)\<close> and \<open>make(map[string]interface{})\<close>.\<close>

definition make_hdr :: "(string \<rightharpoonup> string) \<Rightarrow> 'v Store \<Rightarrow> addr \<times> 'v Store" where
  "make_hdr m st =
     (next_addr st,
      st\<lparr>hdr_maps := (hdr_maps st)(next_addr st \<mapsto> m), next_addr := Suc (next_addr st)\<rparr>)"

definition make_ctx :: "(string \<rightharpoonup> 'v) \<Rightarrow> 'v Store \<Rightarrow> addr \<times> 'v Store" where
  "make_ctx m st =
     (next_addr st,
      st\<lparr>ctx_maps := (ctx_maps st)(next_addr st \<mapsto> m), next_addr := Suc (next_addr st)\<rparr>)"

definition NewMessage :: "'v \<Rightarrow> 'v Store \<Rightarrow> 'v Message \<times> 'v Store" where
  "NewMessage payload st =
     (let (i, st1) = generateID st;
          (h, st2) = make_hdr Map.empty st1;
          (t, st3) = Now st2;
          (c, st4) = make_ctx Map.empty st3
      in (\<lparr>msg_ID = i, msg_Payload = payload, msg_Topic = [], msg_Headers = Some h,
           msg_Timestamp = t, msg_Source = [], msg_Target = [], msg_Context = Some c\<rparr>, st4))"

text \<open>
  The two copy loops of \<open>Clone\<close> write every entry of the old map into a new, empty one;
  the new map then has the contents of the old one. A nil map stays nil. A header or
  context address that the store does not hold reads as the empty map.
\<close>

definition hdr_of :: "'v Store \<Rightarrow> addr \<Rightarrow> (string \<rightharpoonup> string)" where
  "hdr_of st a = (case hdr_maps st a of None \<Rightarrow> Map.empty | Some m \<Rightarrow> m)"

definition ctx_of :: "'v Store \<Rightarrow> addr \<Rightarrow> (string \<rightharpoonup> 'v)" where
  "ctx_of st a = (case ctx_maps st a of None \<Rightarrow> Map.empty | Some m \<Rightarrow> m)"

definition Clone :: "'v Store \<Rightarrow> 'v Message \<Rightarrow> 'v Message \<times> 'v Store" where
  "Clone st m =
     (let (i, st1) = generateID st;
          (t, st2) = Now st1;
          (h, st3) = (case msg_Headers m of
                        None \<Rightarrow> (None, st2)
                      | Some a \<Rightarrow> (let (a', s) = make_hdr (hdr_of st2 a) st2 in (Some a', s)));
          (c, st4) = (case msg_Context m of
                        None \<Rightarrow> (None, st3)
                      | Some a \<Rightarrow> (let (a', s) = make_ctx (ctx_of st3 a) st3 in (Some a', s)))
      in (\<lparr>msg_ID = i, msg_Payload = msg_Payload m, msg_Topic = msg_Topic m, msg_Headers = h,
           msg_Timestamp = t, msg_Source = msg_Source m, msg_Target = msg_Target m,
           msg_Context = c\<rparr>, st4))"

definition SetHeader :: "'v Store \<Rightarrow> 'v Message \<Rightarrow> string \<Rightarrow> string \<Rightarrow> 'v Message \<times> 'v Store" where
  "SetHeader st m k v =
     (let (a, m1, st1) = (case msg_Headers m of
                            None \<Rightarrow> (let (a, s) = make_hdr Map.empty st
                                     in (a, m\<lparr>msg_Headers := Some a\<rparr>, s))
                          | Some a \<Rightarrow> (a, m, st))
      in (m1, st1\<lparr>hdr_maps := (hdr_maps st1)(a \<mapsto> (hdr_of st1 a)(k \<mapsto> v))\<rparr>))"

definition GetHeader :: "'v Store \<Rightarrow> 'v Message \<Rightarrow> string \<Rightarrow> string option" where
  "GetHeader st m k = (case msg_Headers m of None \<Rightarrow> None | Some a \<Rightarrow> hdr_of st a k)"

definition SetContext :: "'v Store \<Rightarrow> 'v Message \<Rightarrow> string \<Rightarrow> 'v \<Rightarrow> 'v Message \<times> 'v Store" where
  "SetContext st m k v =
     (let (a, m1, st1) = (case msg_Context m of
                            None \<Rightarrow> (let (a, s) = make_ctx Map.empty st
                                     in (a, m\<lparr>msg_Context := Some a\<rparr>, s))
                          | Some a \<Rightarrow> (a, m, st))
      in (m1, st1\<lparr>ctx_maps := (ctx_maps st1)(a \<mapsto> (ctx_of st1 a)(k \<mapsto> v))\<rparr>))"

definition GetContext :: "'v Store \<Rightarrow> 'v Message \<Rightarrow> string \<Rightarrow> 'v option" where
  "GetContext st m k = (case msg_Context m of None \<Rightarrow> None | Some a \<Rightarrow> ctx_of st a k)"

text \<open>
  The maps of a message are allocated: their addresses lie below the allocation pointer.
  Every message built by \<open>NewMessage\<close>, \<open>Clone\<close>, \<open>SetHeader\<close> or \<open>SetContext\<close> is.
\<close>

definition allocated :: "'v Store \<Rightarrow> 'v Message \<Rightarrow> bool" where
  "allocated st m \<longleftrightarrow>
     (case msg_Headers m of None \<Rightarrow> True | Some a \<Rightarrow> a < next_addr st) \<and>
     (case msg_Context m of None \<Rightarrow> True | Some a \<Rightarrow> a < next_addr st)"

section \<open>Blocks and the registry (internal/blocks/interface.go)\<close>

text \<open>
  \<open>BlockGroup\<close> is a string type with three named constants; a block may report any
  other string.
\<close>

type_synonym BlockGroup = string

definition InputGroup :: BlockGroup where "InputGroup = ''input''"
definition PropagationGroup :: BlockGroup where "PropagationGroup = ''propagation''"
definition ActionGroup :: BlockGroup where "ActionGroup = ''action''"

record BlockInfo =
  bi_Type :: string
  bi_Name :: string
  bi_Description :: string
  bi_Category :: string
  bi_BlockGroup :: BlockGroup
  bi_Inputs :: int
  bi_Outputs :: int
  bi_Version :: string
  bi_Author :: string
  bi_Icon :: string
  bi_Color :: string

text \<open>
  A block instance is known to the engine through the \<open>Block\<close> interface. Its metadata
  accessors are fields here; \<open>Execute\<close> is implemented by each block type outside the
  engine, and the worker functions below take it as the parameter \<open>exec\<close>.
\<close>

record Block =
  GetType :: string
  GetBlockGroup :: BlockGroup
  GetInputs :: int
  GetOutputs :: int

record BlockFactory =
  CreateBlock :: Block
  GetBlockInfo :: BlockInfo

type_synonym Registry = "string \<rightharpoonup> BlockFactory"

definition NewRegistry :: Registry where
  "NewRegistry = Map.empty"

definition Register :: "BlockFactory \<Rightarrow> Registry \<Rightarrow> Registry" where
  "Register factory r = r(bi_Type (GetBlockInfo factory) \<mapsto> factory)"

section \<open>Errors\<close>

text \<open>
  Every error the modelled functions return is a constructor; \<open>Wrap\<close> is
  \<open>fmt.Errorf("...: %w", err)\<close>. \<open>Panic\<close> is a run-time panic of the Go program.
\<close>

datatype error =
    BlockError string string
  | ValidationError string
  | StorageError string string
  | FlowIsNil
  | NoBlocks
  | UnknownBlockType string string
  | NoSourceNode string
  | NoTargetNode string
  | InvalidSourcePort int string int
  | InvalidTargetPort int string int
  | NotPrepared string
  | AlreadyRunning string
  | NotRunning string
  | NotFound string
  | Wrap string error
  | Panic string

definition Registry_CreateBlock :: "Registry \<Rightarrow> string \<Rightarrow> error + Block" where
  "Registry_CreateBlock r blockType =
     (case r blockType of
        None \<Rightarrow> Inl (BlockError ''unknown block type'' blockType)
      | Some factory \<Rightarrow> Inr (CreateBlock factory))"

definition GetBlockInfoByType :: "Registry \<Rightarrow> string \<Rightarrow> error + BlockInfo" where
  "GetBlockInfoByType r blockType =
     (case r blockType of
        None \<Rightarrow> Inl (BlockError ''unknown block type'' blockType)
      | Some factory \<Rightarrow> Inr (GetBlockInfo factory))"

section \<open>Flow definitions (models.Flow, models.Node, models.Connection)\<close>

text \<open>
  Port counts and port indices are Go \<open>int\<close>s. The engine only compares them, so they
  are integers here. The presentation fields the engine never reads (\<open>X\<close>, \<open>Y\<close>, the
  creation and update times) are left out.
\<close>

record 'v Node =
  node_ID :: string
  node_Type :: string
  node_Name :: string
  node_Properties :: "string \<rightharpoonup> 'v"
  node_Inputs :: int
  node_Outputs :: int
  node_Wires :: "string list list"

record Connection =
  conn_ID :: string
  conn_Source :: string
  conn_SourcePort :: int
  conn_Target :: string
  conn_TargetPort :: int
  conn_Label :: string

record 'v Flow =
  flow_ID :: string
  flow_Name :: string
  flow_Description :: string
  flow_Nodes :: "'v Node list"
  flow_Connections :: "Connection list"
  flow_Properties :: "string \<rightharpoonup> string"
  flow_Version :: string
  flow_Active :: bool

subsection \<open>\<open>Flow.Validate\<close>\<close>

text \<open>The first loop: \<open>nodeIDs\<close> is the set of identifiers seen so far.\<close>

fun check_duplicates :: "string set \<Rightarrow> 'v Node list \<Rightarrow> error + string set" where
  "check_duplicates nodeIDs [] = Inr nodeIDs"
| "check_duplicates nodeIDs (node # rest) =
     (if node_ID node \<in> nodeIDs
      then Inl (ValidationError (''duplicate node ID: '' @ node_ID node))
      else check_duplicates (insert (node_ID node) nodeIDs) rest)"

fun check_endpoints :: "string set \<Rightarrow> Connection list \<Rightarrow> error option" where
  "check_endpoints nodeIDs [] = None"
| "check_endpoints nodeIDs (conn # rest) =
     (if conn_Source conn \<notin> nodeIDs
      then Some (ValidationError
                  (''connection references non-existent source node: '' @ conn_Source conn))
      else if conn_Target conn \<notin> nodeIDs
      then Some (ValidationError
                  (''connection references non-existent target node: '' @ conn_Target conn))
      else check_endpoints nodeIDs rest)"

definition Flow_Validate :: "'v Flow \<Rightarrow> error option" where
  "Flow_Validate f =
     (case check_duplicates {} (flow_Nodes f) of
        Inl e \<Rightarrow> Some e
      | Inr nodeIDs \<Rightarrow> check_endpoints nodeIDs (flow_Connections f))"

subsection \<open>\<open>FlowExecutor.ValidateFlow\<close>\<close>

text \<open>The loop over the nodes that looks every block type up in the registry.\<close>

fun check_types :: "Registry \<Rightarrow> 'v Node list \<Rightarrow> error option" where
  "check_types r [] = None"
| "check_types r (node # rest) =
     (case GetBlockInfoByType r (node_Type node) of
        Inl err \<Rightarrow> Some (UnknownBlockType (node_Type node) (node_ID node))
      | Inr info \<Rightarrow> check_types r rest)"

text \<open>
  \<open>nodeMap\<close>: each node is written under its identifier, in declaration order, so a
  later node with the same identifier replaces an earlier one. (The repository is built
  with Go 1.24, where \<open>&node\<close> in a range loop is a new variable in each iteration.)
\<close>

definition build_nodeMap :: "'v Node list \<Rightarrow> (string \<rightharpoonup> 'v Node)" where
  "build_nodeMap nodes = fold (\<lambda>node m. m(node_ID node \<mapsto> node)) nodes Map.empty"

fun check_connections :: "(string \<rightharpoonup> 'v Node) \<Rightarrow> Connection list \<Rightarrow> error option" where
  "check_connections nodeMap [] = None"
| "check_connections nodeMap (conn # rest) =
     (case nodeMap (conn_Source conn) of
        None \<Rightarrow> Some (NoSourceNode (conn_Source conn))
      | Some sourceNode \<Rightarrow>
         (case nodeMap (conn_Target conn) of
            None \<Rightarrow> Some (NoTargetNode (conn_Target conn))
          | Some targetNode \<Rightarrow>
              if conn_SourcePort conn \<ge> node_Outputs sourceNode
              then Some (InvalidSourcePort (conn_SourcePort conn) (conn_Source conn)
                           (node_Outputs sourceNode))
              else if conn_TargetPort conn \<ge> node_Inputs targetNode
              then Some (InvalidTargetPort (conn_TargetPort conn) (conn_Target conn)
                           (node_Inputs targetNode))
              else check_connections nodeMap rest))"

text \<open>The argument is a pointer; \<open>None\<close> is the nil pointer. \<open>None\<close> as result is \<open>nil\<close>, no error.\<close>

definition ValidateFlow :: "Registry \<Rightarrow> 'v Flow option \<Rightarrow> error option" where
  "ValidateFlow r flow =
     (case flow of
        None \<Rightarrow> Some FlowIsNil
      | Some f \<Rightarrow>
          if length (flow_Nodes f) = 0 then Some NoBlocks
          else (case check_types r (flow_Nodes f) of
                  Some e \<Rightarrow> Some e
                | None \<Rightarrow> check_connections (build_nodeMap (flow_Nodes f)) (flow_Connections f)))"

section \<open>The runtime graph (internal/engine/engine.go)\<close>

text \<open>
  A buffered channel of messages is its buffer and its capacity. A send in a
  \<open>select\<close> with a \<open>default\<close> branch goes through exactly when the buffer has room,
  and a receive takes the oldest element.
\<close>

record 'v MsgChan =
  chan_buf :: "'v Message list"
  chan_cap :: nat

definition make_chan :: "nat \<Rightarrow> 'v MsgChan" where
  "make_chan n = \<lparr>chan_buf = [], chan_cap = n\<rparr>"

definition try_send :: "'v MsgChan \<Rightarrow> 'v Message \<Rightarrow> 'v MsgChan option" where
  "try_send ch m =
     (if length (chan_buf ch) < chan_cap ch then Some (ch\<lparr>chan_buf := chan_buf ch @ [m]\<rparr>)
      else None)"

text \<open>
  A \<open>chan struct{}\<close> is only ever made and closed; it is known by its identity, and the
  executor state holds the set of closed ones.
\<close>

type_synonym signal = nat

record 'v RuntimeNode =
  rn_ID :: string
  rn_Type :: string
  rn_Name :: string
  rn_Block :: Block
  rn_Properties :: "string \<rightharpoonup> 'v"
  InputChan :: "'v MsgChan"
  OutputChan :: "'v MsgChan"
  OutputConnections :: "string list"
  rn_StopChan :: signal

text \<open>
  \<open>Nodes\<close> is a Go map from node identifier to node: an association list with one entry
  for each key, whose order stands for the unspecified order in which Go iterates over the
  map. \<open>rf_WaitGroup\<close> is the counter of the flow's \<open>sync.WaitGroup\<close>, to which
  every node's \<open>WaitGroup\<close> field points.
\<close>

record 'v RuntimeFlow =
  rf_ID :: string
  rf_Name :: string
  rf_Nodes :: "(string \<times> 'v RuntimeNode) list"
  rf_Connections :: "Connection list"
  rf_StopChan :: signal
  rf_WaitGroup :: nat
  Running :: bool

datatype level = DEBUG | INFO | WARN | ERROR

datatype 'v log_field = FStr string | FInt int | FVal 'v | FErr error

type_synonym 'v LogEntry = "level \<times> string \<times> (string \<times> 'v log_field) list"

datatype BlockLogger = LoggerAdapter

text \<open>
  \<open>models.BlockExecutionContext\<close>. \<open>ctx_Context\<close> is the \<open>context.Context\<close>, known
  by the signal that cancels it; \<open>ctx_State\<close> is the address of the state map. \<open>None\<close>
  is nil, and for the timestamp the zero time.
\<close>

record 'v BlockExecutionContext =
  ctx_Context :: "signal option"
  ctx_NodeID :: string
  ctx_FlowID :: string
  ctx_Message :: "'v Message option"
  ctx_Logger :: "BlockLogger option"
  ctx_State :: "addr option"
  ctx_Debug :: bool
  ctx_Timestamp :: "int option"

text \<open>
  \<open>Block.Execute\<close>: from the block instance, the context and the properties to the
  returned messages or an error; it may allocate in the store and write to the logger it
  was given.
\<close>

type_synonym 'v Execute =
  "Block \<Rightarrow> 'v BlockExecutionContext \<Rightarrow> (string \<rightharpoonup> 'v) \<Rightarrow> 'v Store
     \<Rightarrow> (error + 'v Message list) \<times> 'v Store \<times> 'v LogEntry list"

text \<open>
  A worker is a goroutine running \<open>runNode(node, flow)\<close>: it holds the address of its
  \<open>RuntimeFlow\<close> and the key of its node. It is \<open>Spawned\<close> until it has chosen its
  loop, then \<open>Active\<close> in the loop of its block group.
\<close>

datatype phase = Spawned | Active BlockGroup

record worker =
  wk_flow :: addr
  wk_node :: string
  wk_phase :: phase

text \<open>
  The executor together with the objects it points to: \<open>fe_heap\<close> holds the
  \<open>RuntimeFlow\<close> objects (the address is the index), \<open>fe_closed\<close> the closed signals,
  \<open>fe_workers\<close> the live goroutines, \<open>fe_logs\<close> what was written to the logger.
  \<open>fe_calls\<close> is a history of the \<open>Execute\<close> calls made by workers (node key and
  context), kept to state what every call receives.
\<close>

record 'v Executor =
  fe_registry :: Registry
  fe_flows :: "string \<rightharpoonup> addr"
  fe_heap :: "'v RuntimeFlow list"
  fe_closed :: "signal set"
  fe_next_signal :: signal
  fe_workers :: "worker list"
  fe_logs :: "'v LogEntry list"
  fe_calls :: "(string \<times> 'v BlockExecutionContext) list"

definition NewFlowExecutor :: "Registry \<Rightarrow> 'v Executor" where
  "NewFlowExecutor r =
     \<lparr>fe_registry = r, fe_flows = Map.empty, fe_heap = [], fe_closed = {}, fe_next_signal = 0,
      fe_workers = [], fe_logs = [], fe_calls = []\<rparr>"

definition log :: "'v LogEntry \<Rightarrow> 'v Executor \<Rightarrow> 'v Executor" where
  "log e fe = fe\<lparr>fe_logs := fe_logs fe @ [e]\<rparr>"

text \<open>\<open>make(chan struct{})\<close>\<close>

definition make_signal :: "'v Executor \<Rightarrow> signal \<times> 'v Executor" where
  "make_signal fe = (fe_next_signal fe, fe\<lparr>fe_next_signal := Suc (fe_next_signal fe)\<rparr>)"

text \<open>Reading through a \<open>*RuntimeFlow\<close>; an address that was never allocated has no object.\<close>

definition deref :: "'v Executor \<Rightarrow> addr \<Rightarrow> 'v RuntimeFlow option" where
  "deref fe a = (if a < length (fe_heap fe) then Some (fe_heap fe ! a) else None)"

definition store_flow :: "addr \<Rightarrow> 'v RuntimeFlow \<Rightarrow> 'v Executor \<Rightarrow> 'v Executor" where
  "store_flow a rf fe = fe\<lparr>fe_heap := (fe_heap fe)[a := rf]\<rparr>"

subsection \<open>\<open>PrepareFlow\<close>\<close>

text \<open>The inner loop: the targets of the connections that leave the node, in declaration order.\<close>

definition output_connections :: "Connection list \<Rightarrow> string \<Rightarrow> string list" where
  "output_connections conns nodeID =
     map conn_Target (filter (\<lambda>conn. conn_Source conn = nodeID) conns)"

text \<open>The loop that creates the runtime nodes; it stops at the first error.\<close>

fun prepare_nodes ::
  "'v Flow \<Rightarrow> 'v Node list \<Rightarrow> (string \<times> 'v RuntimeNode) list \<Rightarrow> 'v Executor
     \<Rightarrow> (error + (string \<times> 'v RuntimeNode) list) \<times> 'v Executor" where
  "prepare_nodes flow [] nodes fe = (Inr nodes, fe)"
| "prepare_nodes flow (node # rest) nodes fe =
     (case Registry_CreateBlock (fe_registry fe) (node_Type node) of
        Inl err \<Rightarrow>
          (Inl (Wrap (''failed to create block for node '' @ node_ID node) err), fe)
      | Inr block \<Rightarrow>
         (case GetBlockInfoByType (fe_registry fe) (node_Type node) of
            Inl err \<Rightarrow>
              (Inl (Wrap (''failed to get block info for node '' @ node_ID node) err), fe)
          | Inr blockInfo \<Rightarrow>
              (let (stop, fe1) = make_signal fe;
                   runtimeNode =
                     \<lparr>rn_ID = node_ID node, rn_Type = node_Type node, rn_Name = node_Name node,
                      rn_Block = block, rn_Properties = node_Properties node,
                      InputChan = make_chan 100, OutputChan = make_chan 100,
                      OutputConnections =
                        output_connections (flow_Connections flow) (node_ID node),
                      rn_StopChan = stop\<rparr>;
                   fe2 = log (DEBUG, ''Created runtime node'',
                              [(''node_id'', FStr (node_ID node)),
                               (''node_type'', FStr (node_Type node)),
                               (''block_group'', FStr (bi_BlockGroup blockInfo)),
                               (''connections'',
                                  FInt (int (length (OutputConnections runtimeNode))))]) fe1
               in prepare_nodes flow rest (AList.update (node_ID node) runtimeNode nodes) fe2)))"

text \<open>
  The result is the address of the new \<open>RuntimeFlow\<close>. After \<open>ValidateFlow\<close> has passed
  the pointer is not nil.
\<close>

definition PrepareFlow :: "'v Executor \<Rightarrow> 'v Flow option \<Rightarrow> (error + addr) \<times> 'v Executor" where
  "PrepareFlow fe flow =
     (case ValidateFlow (fe_registry fe) flow of
        Some err \<Rightarrow> (Inl (Wrap ''flow validation failed'' err), fe)
      | None \<Rightarrow>
         (case flow of
            None \<Rightarrow> (Inl (Panic ''nil pointer dereference''), fe)
          | Some f \<Rightarrow>
             (let (stop, fe1) = make_signal fe
              in case prepare_nodes f (flow_Nodes f) [] fe1 of
                   (Inl err, fe2) \<Rightarrow> (Inl err, fe2)
                 | (Inr nodes, fe2) \<Rightarrow>
                     (Inr (length (fe_heap fe2)),
                      fe2\<lparr>fe_heap := fe_heap fe2 @
                            [\<lparr>rf_ID = flow_ID f, rf_Name = flow_Name f, rf_Nodes = nodes,
                              rf_Connections = flow_Connections f, rf_StopChan = stop,
                              rf_WaitGroup = 0, Running = False\<rparr>]\<rparr>))))"

subsection \<open>\<open>distributeMessage\<close>\<close>

text \<open>
  One iteration of the loop over \<open>sourceNode.OutputConnections\<close>, on the store, the
  flow the worker points to and the log. The \<open>select\<close> with its \<open>default\<close> branch is
  \<open>try_send\<close>. The function has no result: nothing is reported to the caller.
\<close>

definition deliver ::
  "'v RuntimeNode \<Rightarrow> 'v Message \<Rightarrow> string
     \<Rightarrow> 'v Store \<times> 'v RuntimeFlow \<times> 'v LogEntry list
     \<Rightarrow> 'v Store \<times> 'v RuntimeFlow \<times> 'v LogEntry list" where
  "deliver sourceNode msg targetNodeID s =
     (case s of (st, flow, lg) \<Rightarrow>
        (case map_of (rf_Nodes flow) targetNodeID of
           None \<Rightarrow>
             (st, flow,
              lg @ [(ERROR, ''Target node not found'',
                     [(''source_node'', FStr (rn_ID sourceNode)),
                      (''target_node'', FStr targetNodeID)])])
         | Some targetNode \<Rightarrow>
             (let (clonedMsg, st1) = Clone st msg
              in case try_send (InputChan targetNode) clonedMsg of
                   Some ch \<Rightarrow>
                     (st1,
                      flow\<lparr>rf_Nodes :=
                             AList.update targetNodeID (targetNode\<lparr>InputChan := ch\<rparr>)
                               (rf_Nodes flow)\<rparr>,
                      lg @ [(DEBUG, ''Message sent'',
                             [(''from'', FStr (rn_ID sourceNode)), (''to'', FStr targetNodeID),
                              (''payload'', FVal (msg_Payload clonedMsg))])])
                 | None \<Rightarrow>
                     (st1, flow,
                      lg @ [(WARN, ''Target node input channel full, dropping message'',
                             [(''source_node'', FStr (rn_ID sourceNode)),
                              (''target_node'', FStr targetNodeID)])]))))"

definition distributeMessage ::
  "'v RuntimeNode \<Rightarrow> 'v Message
     \<Rightarrow> 'v Store \<times> 'v RuntimeFlow \<times> 'v LogEntry list
     \<Rightarrow> 'v Store \<times> 'v RuntimeFlow \<times> 'v LogEntry list" where
  "distributeMessage sourceNode msg s =
     fold (deliver sourceNode msg) (OutputConnections sourceNode) s"

subsection \<open>Node workers: \<open>runNode\<close> and the three loops\<close>

text \<open>
  A worker runs concurrently with the other workers and with the callers of the executor.
  Each function below is one uninterrupted piece of a worker: the prologue of
  \<open>runNode\<close>, its return, or one round of a loop, that is one \<open>select\<close> together with
  the branch it chose. Which piece runs next is chosen from outside (\<open>event\<close>).
\<close>

definition node_of :: "'v Executor \<Rightarrow> worker \<Rightarrow> ('v RuntimeFlow \<times> 'v RuntimeNode) option" where
  "node_of fe wk =
     (case deref fe (wk_flow wk) of
        None \<Rightarrow> None
      | Some flow \<Rightarrow>
         (case map_of (rf_Nodes flow) (wk_node wk) of
            None \<Rightarrow> None
          | Some node \<Rightarrow> Some (flow, node)))"

text \<open>
  The end of \<open>runNode\<close>: the last log line and the deferred \<open>WaitGroup.Done\<close>; the
  goroutine is gone. (The counter is at least one here: the worker's own \<open>Add(1)\<close>.)
\<close>

definition runNode_return :: "worker \<Rightarrow> 'v Executor \<Rightarrow> 'v Executor" where
  "runNode_return wk fe =
     (let fe1 = log (DEBUG, ''Node finished'', [(''node_id'', FStr (wk_node wk))]) fe;
          fe2 = (case deref fe1 (wk_flow wk) of
                   None \<Rightarrow> fe1
                 | Some flow \<Rightarrow>
                     store_flow (wk_flow wk) (flow\<lparr>rf_WaitGroup := rf_WaitGroup flow - 1\<rparr>) fe1)
      in fe2\<lparr>fe_workers := remove1 wk (fe_workers fe2)\<rparr>)"

text \<open>
  The prologue of \<open>runNode\<close>: the block info whose type is the node's type, the first log
  line and the \<open>switch\<close> on the block group, which has no default branch. Factories are
  registered under the type their info reports, so the search through
  \<open>GetBlockInfo()\<close> finds what the registry holds under the node's type. When nothing is
  registered under that type the Go code takes whichever entry the map iteration gave
  first (and panics on an empty registry); this case is left out (\<open>None\<close>): the types of
  a prepared flow are registered.
\<close>

definition runNode_begin :: "worker \<Rightarrow> 'v Executor \<Rightarrow> 'v Executor option" where
  "runNode_begin wk fe =
     (case node_of fe wk of
        None \<Rightarrow> None
      | Some (flow, node) \<Rightarrow>
         (case fe_registry fe (rn_Type node) of
            None \<Rightarrow> None
          | Some factory \<Rightarrow>
             (let blockInfo = GetBlockInfo factory;
                  fe1 = log (DEBUG, ''Starting node'',
                             [(''node_id'', FStr (rn_ID node)),
                              (''node_type'', FStr (rn_Type node)),
                              (''block_group'', FStr (bi_BlockGroup blockInfo))]) fe;
                  g = bi_BlockGroup blockInfo
              in if g = InputGroup \<or> g = PropagationGroup \<or> g = ActionGroup
                 then Some (fe1\<lparr>fe_workers :=
                                  map (\<lambda>w. if w = wk then w\<lparr>wk_phase := Active g\<rparr> else w)
                                    (fe_workers fe1)\<rparr>)
                 else Some (runNode_return wk fe1))))"

text \<open>
  The context literal of the three loops: node identifier, logger and message are set,
  every other field keeps its zero value.
\<close>

definition exec_ctx :: "'v RuntimeNode \<Rightarrow> 'v Message option \<Rightarrow> 'v BlockExecutionContext" where
  "exec_ctx node msg =
     \<lparr>ctx_Context = None, ctx_NodeID = rn_ID node, ctx_FlowID = [], ctx_Message = msg,
      ctx_Logger = Some LoggerAdapter, ctx_State = None, ctx_Debug = False,
      ctx_Timestamp = None\<rparr>"

text \<open>\<open>node.Block.Execute(ctx, node.Properties)\<close>, with the call written to the history.\<close>

definition call_Execute ::
  "'v Execute \<Rightarrow> 'v RuntimeNode \<Rightarrow> 'v BlockExecutionContext \<Rightarrow> 'v Store \<times> 'v Executor
     \<Rightarrow> (error + 'v Message list) \<times> 'v Store \<times> 'v Executor" where
  "call_Execute exec node ctx s =
     (case s of (st, fe) \<Rightarrow>
        (let (res, st1, out) = exec (rn_Block node) ctx (rn_Properties node) st
         in (res, st1,
             fe\<lparr>fe_logs := fe_logs fe @ out, fe_calls := fe_calls fe @ [(rn_ID node, ctx)]\<rparr>)))"

text \<open>The loop \<open>for _, msg := range messages { fe.distributeMessage(node, msg, flow) }\<close>.\<close>

definition distribute_all ::
  "addr \<Rightarrow> 'v RuntimeNode \<Rightarrow> 'v Message list \<Rightarrow> 'v Store \<times> 'v Executor
     \<Rightarrow> 'v Store \<times> 'v Executor" where
  "distribute_all a node messages s =
     fold (\<lambda>msg s. case s of (st, fe) \<Rightarrow>
             (case deref fe a of
                None \<Rightarrow> (st, fe)
              | Some flow \<Rightarrow>
                 (case distributeMessage node msg (st, flow, fe_logs fe) of
                    (st1, flow1, lg1) \<Rightarrow> (st1, (store_flow a flow1 fe)\<lparr>fe_logs := lg1\<rparr>))))
          messages s"

text \<open>
  The interval of the ticker that \<open>runInputNode\<close> creates, a \<open>time.Duration\<close> in
  nanoseconds.
\<close>

definition Millisecond :: int where "Millisecond = 1000000"
definition Second :: int where "Second = 1000 * Millisecond"

definition runInputNode_ticker :: "'v RuntimeNode \<Rightarrow> int" where
  "runInputNode_ticker node = 1 * Second"

text \<open>The branch \<open>case <-ticker.C\<close> of \<open>runInputNode\<close>.\<close>

definition runInputNode_tick ::
  "'v Execute \<Rightarrow> worker \<Rightarrow> 'v RuntimeNode \<Rightarrow> 'v Store \<times> 'v Executor \<Rightarrow> 'v Store \<times> 'v Executor" where
  "runInputNode_tick exec wk node s =
     (case call_Execute exec node (exec_ctx node None) s of
        (Inl err, st1, fe1) \<Rightarrow>
          (st1, log (ERROR, ''Error executing input node'',
                     [(''node_id'', FStr (rn_ID node)), (''error'', FErr err)]) fe1)
      | (Inr messages, st1, fe1) \<Rightarrow> distribute_all (wk_flow wk) node messages (st1, fe1))"

text \<open>
  The branch \<open>case msg := <-node.InputChan\<close>: the oldest message leaves the queue. The
  branch can only be chosen when the queue is not empty.
\<close>

definition receive ::
  "worker \<Rightarrow> 'v RuntimeFlow \<Rightarrow> 'v RuntimeNode \<Rightarrow> 'v Executor \<Rightarrow> ('v Message \<times> 'v Executor) option" where
  "receive wk flow node fe =
     (case chan_buf (InputChan node) of
        [] \<Rightarrow> None
      | msg # rest \<Rightarrow>
          Some (msg,
                store_flow (wk_flow wk)
                  (flow\<lparr>rf_Nodes :=
                     AList.update (wk_node wk)
                       (node\<lparr>InputChan := (InputChan node)\<lparr>chan_buf := rest\<rparr>\<rparr>)
                       (rf_Nodes flow)\<rparr>) fe))"

definition runPropagationNode_receive ::
  "'v Execute \<Rightarrow> worker \<Rightarrow> 'v RuntimeFlow \<Rightarrow> 'v RuntimeNode \<Rightarrow> 'v Store \<times> 'v Executor
     \<Rightarrow> ('v Store \<times> 'v Executor) option" where
  "runPropagationNode_receive exec wk flow node s =
     (case s of (st, fe) \<Rightarrow>
        (case receive wk flow node fe of
           None \<Rightarrow> None
         | Some (msg, fe0) \<Rightarrow>
            (case call_Execute exec node (exec_ctx node (Some msg)) (st, fe0) of
               (Inl err, st1, fe1) \<Rightarrow>
                 Some (st1, log (ERROR, ''Error executing propagation node'',
                                 [(''node_id'', FStr (rn_ID node)), (''error'', FErr err)]) fe1)
             | (Inr messages, st1, fe1) \<Rightarrow>
                 Some (distribute_all (wk_flow wk) node messages (st1, fe1)))))"

definition runActionNode_receive ::
  "'v Execute \<Rightarrow> worker \<Rightarrow> 'v RuntimeFlow \<Rightarrow> 'v RuntimeNode \<Rightarrow> 'v Store \<times> 'v Executor
     \<Rightarrow> ('v Store \<times> 'v Executor) option" where
  "runActionNode_receive exec wk flow node s =
     (case s of (st, fe) \<Rightarrow>
        (case receive wk flow node fe of
           None \<Rightarrow> None
         | Some (msg, fe0) \<Rightarrow>
            (case call_Execute exec node (exec_ctx node (Some msg)) (st, fe0) of
               (Inl err, st1, fe1) \<Rightarrow>
                 Some (st1, log (ERROR, ''Error executing action node'',
                                 [(''node_id'', FStr (rn_ID node)), (''error'', FErr err)]) fe1)
             | (Inr messages, st1, fe1) \<Rightarrow> Some (st1, fe1))))"

datatype event = Begin | FlowStop | NodeStop | Tick | Receive

text \<open>
  One piece of the worker \<open>wk\<close>; \<open>None\<close> when the worker is not live or the event cannot
  happen in its state: a stop branch needs its signal closed, \<open>Tick\<close> belongs to the input
  loop, \<open>Receive\<close> to the other two and needs a queued message.
\<close>

definition runNode_step ::
  "'v Execute \<Rightarrow> event \<Rightarrow> worker \<Rightarrow> 'v Store \<times> 'v Executor \<Rightarrow> ('v Store \<times> 'v Executor) option" where
  "runNode_step exec ev wk s =
     (case s of (st, fe) \<Rightarrow>
        if wk \<notin> set (fe_workers fe) then None
        else (case node_of fe wk of
                None \<Rightarrow> None
              | Some (flow, node) \<Rightarrow>
                 (case wk_phase wk of
                    Spawned \<Rightarrow>
                      (if ev = Begin then map_option (Pair st) (runNode_begin wk fe) else None)
                  | Active g \<Rightarrow>
                     (case ev of
                        Begin \<Rightarrow> None
                      | FlowStop \<Rightarrow>
                          if rf_StopChan flow \<in> fe_closed fe
                          then Some (st, runNode_return wk fe) else None
                      | NodeStop \<Rightarrow>
                          if rn_StopChan node \<in> fe_closed fe
                          then Some (st, runNode_return wk fe) else None
                      | Tick \<Rightarrow>
                          if g = InputGroup then Some (runInputNode_tick exec wk node s)
                          else None
                      | Receive \<Rightarrow>
                          if g = PropagationGroup
                          then runPropagationNode_receive exec wk flow node s
                          else if g = ActionGroup
                          then runActionNode_receive exec wk flow node s
                          else None))))"

subsection \<open>\<open>StartFlow\<close>, \<open>StopFlow\<close>, \<open>PrepareAndStartFlow\<close>, \<open>GetFlowStatus\<close>\<close>

definition StartFlow :: "'v Executor \<Rightarrow> string \<Rightarrow> error option \<times> 'v Executor" where
  "StartFlow fe flowID =
     (case fe_flows fe flowID of
        None \<Rightarrow> (Some (NotPrepared flowID), fe)
      | Some a \<Rightarrow>
         (case deref fe a of
            None \<Rightarrow> (Some (Panic ''nil pointer dereference''), fe)
          | Some runtimeFlow \<Rightarrow>
              if Running runtimeFlow then (Some (AlreadyRunning flowID), fe)
              else
                (let fe1 = store_flow a
                             (runtimeFlow\<lparr>Running := True,
                                rf_WaitGroup := rf_WaitGroup runtimeFlow
                                                 + length (rf_Nodes runtimeFlow)\<rparr>) fe;
                     fe2 = fe1\<lparr>fe_workers := fe_workers fe1 @
                                  map (\<lambda>(k, node). \<lparr>wk_flow = a, wk_node = k, wk_phase = Spawned\<rparr>)
                                    (rf_Nodes runtimeFlow)\<rparr>
                 in (None,
                     log (INFO, ''Flow started'',
                          [(''flow_id'', FStr flowID),
                           (''flow_name'', FStr (rf_Name runtimeFlow)),
                           (''nodes'', FInt (int (length (rf_Nodes runtimeFlow))))]) fe2))))"

text \<open>
  \<open>WaitGroup.Wait()\<close> returns when every worker of the flow has returned. With the stop
  signal closed, a worker returns at a \<open>select\<close> of its loop; here each worker of the flow
  does so at once (a spawned one after its prologue), in the order of the worker list. A
  worker may instead handle a few more ticks or messages first, and one whose \<open>Execute\<close>
  never returns keeps \<open>Wait\<close> blocked; neither is part of this function.
\<close>

definition finish_worker :: "worker \<Rightarrow> 'v Executor \<Rightarrow> 'v Executor" where
  "finish_worker wk fe =
     (case wk_phase wk of
        Active g \<Rightarrow> runNode_return wk fe
      | Spawned \<Rightarrow>
         (case runNode_begin wk fe of
            None \<Rightarrow> fe
          | Some fe1 \<Rightarrow>
             (case find (\<lambda>w. wk_flow w = wk_flow wk \<and> wk_node w = wk_node wk) (fe_workers fe1) of
                None \<Rightarrow> fe1
              | Some w \<Rightarrow> runNode_return w fe1)))"

definition Wait :: "addr \<Rightarrow> 'v Executor \<Rightarrow> 'v Executor" where
  "Wait a fe = fold finish_worker (filter (\<lambda>w. wk_flow w = a) (fe_workers fe)) fe"

definition StopFlow :: "'v Executor \<Rightarrow> string \<Rightarrow> error option \<times> 'v Executor" where
  "StopFlow fe flowID =
     (case fe_flows fe flowID of
        None \<Rightarrow> (Some (NotRunning flowID), fe)
      | Some a \<Rightarrow>
         (case deref fe a of
            None \<Rightarrow> (Some (Panic ''nil pointer dereference''), fe)
          | Some runtimeFlow \<Rightarrow>
              if \<not> Running runtimeFlow then (Some (NotRunning flowID), fe)
              else if rf_StopChan runtimeFlow \<in> fe_closed fe
              then (Some (Panic ''close of closed channel''), fe)
              else
                (let fe1 = fe\<lparr>fe_closed := insert (rf_StopChan runtimeFlow) (fe_closed fe)\<rparr>;
                     fe2 = Wait a fe1;
                     fe3 = (case deref fe2 a of
                              None \<Rightarrow> fe2
                            | Some rf \<Rightarrow> store_flow a (rf\<lparr>Running := False\<rparr>) fe2)
                 in (None, log (INFO, ''Flow stopped'', [(''flow_id'', FStr flowID)]) fe3))))"

definition PrepareAndStartFlow :: "'v Executor \<Rightarrow> 'v Flow option \<Rightarrow> error option \<times> 'v Executor" where
  "PrepareAndStartFlow fe flow =
     (case PrepareFlow fe flow of
        (Inl err, fe1) \<Rightarrow> (Some (Wrap ''failed to prepare flow'' err), fe1)
      | (Inr runtimeFlow, fe1) \<Rightarrow>
         (case flow of
            None \<Rightarrow> (Some (Panic ''nil pointer dereference''), fe1)
          | Some f \<Rightarrow>
              StartFlow (fe1\<lparr>fe_flows := (fe_flows fe1)(flow_ID f \<mapsto> runtimeFlow)\<rparr>) (flow_ID f)))"

definition GetFlowStatus :: "'v Executor \<Rightarrow> string \<Rightarrow> error + bool" where
  "GetFlowStatus fe flowID =
     (case fe_flows fe flowID of
        None \<Rightarrow> Inl (NotFound flowID)
      | Some a \<Rightarrow>
         (case deref fe a of
            None \<Rightarrow> Inl (Panic ''nil pointer dereference'')
          | Some runtimeFlow \<Rightarrow> Inr (Running runtimeFlow)))"

section \<open>The engine (\<open>Engine\<close> in internal/engine/engine.go)\<close>

text \<open>
  The storage is an interface; the engine only loads flows by identifier from it, so it is
  the map from identifiers to stored flows, and loading fails for an identifier it does not
  hold (failures of the medium are left out). The registry and the logger of the engine
  are those of its executor.
\<close>

record 'v Engine =
  eng_storage :: "string \<rightharpoonup> 'v Flow"
  eng_executor :: "'v Executor"

definition LoadFlow :: "(string \<rightharpoonup> 'v Flow) \<Rightarrow> string \<Rightarrow> error + 'v Flow" where
  "LoadFlow storage flowID =
     (case storage flowID of
        None \<Rightarrow> Inl (StorageError ''flow not found'' flowID)
      | Some flow \<Rightarrow> Inr flow)"

definition Engine_StartFlow :: "'v Engine \<Rightarrow> string \<Rightarrow> error option \<times> 'v Engine" where
  "Engine_StartFlow e flowID =
     (case LoadFlow (eng_storage e) flowID of
        Inl err \<Rightarrow> (Some (Wrap ''failed to load flow'' err), e)
      | Inr flow \<Rightarrow>
         (case Flow_Validate flow of
            Some err \<Rightarrow> (Some (Wrap ''flow validation failed'' err), e)
          | None \<Rightarrow>
             (case PrepareAndStartFlow (eng_executor e) (Some flow) of
                (r, fe) \<Rightarrow> (r, e\<lparr>eng_executor := fe\<rparr>))))"

definition Engine_StopFlow :: "'v Engine \<Rightarrow> string \<Rightarrow> error option \<times> 'v Engine" where
  "Engine_StopFlow e flowID =
     (case StopFlow (eng_executor e) flowID of (r, fe) \<Rightarrow> (r, e\<lparr>eng_executor := fe\<rparr>))"

text \<open>\<open>input\<close> is the message pointer the caller passes; the body does not use it.\<close>

definition TriggerFlow :: "'v Engine \<Rightarrow> string \<Rightarrow> 'v Message option \<Rightarrow> error option \<times> 'v Engine" where
  "TriggerFlow e flowID input = Engine_StartFlow e flowID"

text \<open>The result map of \<open>Engine.GetFlowStatus\<close> has the two keys \<open>running\<close> and \<open>flow_id\<close>.\<close>

definition Engine_GetFlowStatus :: "'v Engine \<Rightarrow> string \<Rightarrow> error + bool \<times> string" where
  "Engine_GetFlowStatus e flowID =
     (case GetFlowStatus (eng_executor e) flowID of
        Inl err \<Rightarrow> Inl err
      | Inr running \<Rightarrow> Inr (running, flowID))"

section \<open>Built-in blocks (internal/blocks/builtin) and the engine constructor\<close>

definition builtin_factory ::
  "string \<Rightarrow> string \<Rightarrow> string \<Rightarrow> string \<Rightarrow> BlockGroup \<Rightarrow> int \<Rightarrow> int \<Rightarrow> string \<Rightarrow> string
     \<Rightarrow> BlockFactory" where
  "builtin_factory ty name descr cat grp ins outs icon color =
     \<lparr>CreateBlock = \<lparr>GetType = ty, GetBlockGroup = grp, GetInputs = ins, GetOutputs = outs\<rparr>,
      GetBlockInfo =
        \<lparr>bi_Type = ty, bi_Name = name, bi_Description = descr, bi_Category = cat,
         bi_BlockGroup = grp, bi_Inputs = ins, bi_Outputs = outs, bi_Version = ''1.0.0'',
         bi_Author = ''Block-Flow'', bi_Icon = icon, bi_Color = color\<rparr>\<rparr>"

definition InjectBlockFactory :: BlockFactory where
  "InjectBlockFactory =
     builtin_factory ''inject'' ''Inject'' ''Manually trigger the flow with configurable payload''
       ''input'' InputGroup 0 1 ''play-circle'' ''#4CAF50''"

definition DebugBlockFactory :: BlockFactory where
  "DebugBlockFactory =
     builtin_factory ''debug'' ''Debug'' ''Output debug information to console or log''
       ''output'' ActionGroup 1 0 ''bug'' ''#FF9800''"

definition AdditionBlockFactory :: BlockFactory where
  "AdditionBlockFactory =
     builtin_factory ''add'' ''Addition'' ''Add a number to the input''
       ''math'' PropagationGroup 1 1 ''plus'' ''#2196F3''"

definition SubtractionBlockFactory :: BlockFactory where
  "SubtractionBlockFactory =
     builtin_factory ''subtract'' ''Subtraction'' ''Subtract a number from the input''
       ''math'' PropagationGroup 1 1 ''minus'' ''#F44336''"

definition MultiplicationBlockFactory :: BlockFactory where
  "MultiplicationBlockFactory =
     builtin_factory ''multiply'' ''Multiplication'' ''Multiply the input by a number''
       ''math'' PropagationGroup 1 1 ''times'' ''#9C27B0''"

definition DivisionBlockFactory :: BlockFactory where
  "DivisionBlockFactory =
     builtin_factory ''divide'' ''Division'' ''Divide the input by a number''
       ''math'' PropagationGroup 1 1 ''divide'' ''#FF5722''"

definition RegisterBuiltinBlocks :: "Registry \<Rightarrow> Registry" where
  "RegisterBuiltinBlocks registry =
     Register DivisionBlockFactory
       (Register MultiplicationBlockFactory
         (Register SubtractionBlockFactory
           (Register AdditionBlockFactory
             (Register DebugBlockFactory
               (Register InjectBlockFactory registry)))))"

definition New :: "(string \<rightharpoonup> 'v Flow) \<Rightarrow> 'v Engine" where
  "New storage =
     \<lparr>eng_storage = storage,
      eng_executor = NewFlowExecutor (RegisterBuiltinBlocks NewRegistry)\<rparr>"

section \<open>Example data\<close>

text \<open>
  Property values and payloads of the examples: JSON scalars (the numbers that occur are
  whole).
\<close>

datatype val = Num int | Str string | Bool bool

text \<open>
  An inject node wired to a debug node. The inject node asks for one message every five
  seconds.
\<close>

definition inject_node :: "val Node" where
  "inject_node =
     \<lparr>node_ID = ''n1'', node_Type = ''inject'', node_Name = ''source'',
      node_Properties = [''payload'' \<mapsto> Str ''5'', ''interval'' \<mapsto> Num 5000],
      node_Inputs = 0, node_Outputs = 1, node_Wires = [[''n2'']]\<rparr>"

definition debug_node :: "val Node" where
  "debug_node =
     \<lparr>node_ID = ''n2'', node_Type = ''debug'', node_Name = ''sink'',
      node_Properties = Map.empty, node_Inputs = 1, node_Outputs = 0, node_Wires = []\<rparr>"

definition wire :: "int \<Rightarrow> int \<Rightarrow> Connection" where
  "wire sp tp =
     \<lparr>conn_ID = ''c1'', conn_Source = ''n1'', conn_SourcePort = sp, conn_Target = ''n2'',
      conn_TargetPort = tp, conn_Label = []\<rparr>"

definition demo_flow :: "Connection list \<Rightarrow> val Flow" where
  "demo_flow conns =
     \<lparr>flow_ID = ''f1'', flow_Name = ''demo'', flow_Description = [],
      flow_Nodes = [inject_node, debug_node], flow_Connections = conns,
      flow_Properties = Map.empty, flow_Version = ''1.0.0'', flow_Active = True\<rparr>"

definition demo_engine :: "val Engine" where
  "demo_engine = New [''f1'' \<mapsto> demo_flow [wire 0 0]]"

text \<open>
  A store whose random source returns sixteen times the byte \<open>0xab\<close>, and a message that
  carries the hexadecimal text of those bytes as its identifier.
\<close>

definition demo_store :: "val Store" where
  "demo_store =
     \<lparr>hdr_maps = [0 \<mapsto> [''k'' \<mapsto> ''v'']], ctx_maps = Map.empty, next_addr = 1,
      rand_Read = (\<lambda>i. Some (replicate 16 0xAB)), rand_pos = 0,
      time_Now = (\<lambda>i. int i), time_pos = 0\<rparr>"

definition demo_msg :: "val Message" where
  "demo_msg =
     \<lparr>msg_ID = ''abababababababababababababababab'', msg_Payload = Num 42, msg_Topic = [],
      msg_Headers = Some 0, msg_Timestamp = 0, msg_Source = [], msg_Target = [],
      msg_Context = None\<rparr>"

text \<open>
  A prepared flow with three nodes: the inject node \<open>n1\<close> feeds the debug node \<open>n2\<close>
  twice and the addition node \<open>n3\<close> once. The queue of \<open>n2\<close> is full, that of \<open>n3\<close>
  is empty.
\<close>

definition demo_rnode ::
  "string \<Rightarrow> BlockFactory \<Rightarrow> string list \<Rightarrow> val Message list \<Rightarrow> signal \<Rightarrow> val RuntimeNode" where
  "demo_rnode k factory outs queue stop =
     \<lparr>rn_ID = k, rn_Type = bi_Type (GetBlockInfo factory), rn_Name = k,
      rn_Block = CreateBlock factory, rn_Properties = [''interval'' \<mapsto> Num 5000],
      InputChan = \<lparr>chan_buf = queue, chan_cap = 100\<rparr>, OutputChan = make_chan 100,
      OutputConnections = outs, rn_StopChan = stop\<rparr>"

definition demo_source :: "val RuntimeNode" where
  "demo_source = demo_rnode ''n1'' InjectBlockFactory [''n2'', ''n3'', ''n2''] [] 1"

definition demo_rflow :: "val RuntimeFlow" where
  "demo_rflow =
     \<lparr>rf_ID = ''f1'', rf_Name = ''demo'',
      rf_Nodes = [(''n1'', demo_source),
                  (''n2'', demo_rnode ''n2'' DebugBlockFactory [] (replicate 100 demo_msg) 2),
                  (''n3'', demo_rnode ''n3'' AdditionBlockFactory [] [] 3)],
      rf_Connections = [], rf_StopChan = 0, rf_WaitGroup = 3, Running = True\<rparr>"

definition demo_worker :: "string \<Rightarrow> BlockGroup \<Rightarrow> worker" where
  "demo_worker k g = \<lparr>wk_flow = 0, wk_node = k, wk_phase = Active g\<rparr>"

definition demo_executor :: "val Executor" where
  "demo_executor =
     \<lparr>fe_registry = RegisterBuiltinBlocks NewRegistry, fe_flows = [''f1'' \<mapsto> 0],
      fe_heap = [demo_rflow], fe_closed = {}, fe_next_signal = 4,
      fe_workers = [demo_worker ''n1'' InputGroup, demo_worker ''n2'' ActionGroup,
                    demo_worker ''n3'' PropagationGroup],
      fe_logs = [], fe_calls = []\<rparr>"

text \<open>
  A block behaviour for the examples: without an input message it emits a new message
  with payload 5, with one it passes the message on.
\<close>

definition demo_exec :: "val Execute" where
  "demo_exec block ctx properties st =
     (case ctx_Message ctx of
        None \<Rightarrow> (let (m, st1) = NewMessage (Num 5) st in (Inr [m], st1, []))
      | Some m \<Rightarrow> (Inr [m], st, []))"

text \<open>
  Runs of the example engine on its flow \<open>f1\<close>: the flow is started through the engine
  and started again; and the flow is prepared and started on the executor, stopped, and
  started once more with \<open>StartFlow\<close>.
\<close>

definition first_start :: "error option \<times> val Engine" where
  "first_start = Engine_StartFlow demo_engine ''f1''"

definition second_start :: "error option \<times> val Engine" where
  "second_start = Engine_StartFlow (snd first_start) ''f1''"

definition first_run :: "error option \<times> val Executor" where
  "first_run = PrepareAndStartFlow (eng_executor demo_engine) (Some (demo_flow [wire 0 0]))"

definition first_stop :: "error option \<times> val Executor" where
  "first_stop = StopFlow (snd first_run) ''f1''"

definition restart :: "error option \<times> val Executor" where
  "restart = StartFlow (snd first_stop) ''f1''"

definition second_stop :: "error option \<times> val Executor" where
  "second_stop = StopFlow (snd restart) ''f1''"

text \<open>
  One round of the worker of the debug node \<open>n2\<close> of the prepared example flow, which
  takes the oldest message of its queue.
\<close>

definition demo_receive :: "(val Store \<times> val Executor) option" where
  "demo_receive =
     runNode_step demo_exec Receive (demo_worker ''n2'' ActionGroup) (demo_store, demo_executor)"

text \<open>The example flow triggered through the engine with the example message.\<close>

definition triggered :: "error option \<times> val Engine" where
  "triggered = TriggerFlow demo_engine ''f1'' (Some demo_msg)"

text \<open>
  A store whose random source fails and whose clock is too coarse to tell two readings
  apart, and a message made in it together with the store it leaves.
\<close>

definition coarse_store :: "val Store" where
  "coarse_store =
     \<lparr>hdr_maps = Map.empty, ctx_maps = Map.empty, next_addr = 0,
      rand_Read = (\<lambda>i. None), rand_pos = 0, time_Now = (\<lambda>i. 1700000000), time_pos = 0\<rparr>"

definition coarse_msg :: "val Message \<times> val Store" where
  "coarse_msg = NewMessage (Num 1) coarse_store"

section \<open>Notions used in the statements\<close>

text \<open>
  \<open>runtime_node_of flow node rn\<close>: \<open>rn\<close> is the runtime node that \<open>PrepareFlow\<close>
  builds for the node \<open>node\<close> of \<open>flow\<close>, up to its block instance and its stop signal.
\<close>

definition runtime_node_of :: "'v Flow \<Rightarrow> 'v Node \<Rightarrow> 'v RuntimeNode \<Rightarrow> bool" where
  "runtime_node_of flow node rn \<longleftrightarrow>
     rn_ID rn = node_ID node \<and> rn_Type rn = node_Type node \<and> rn_Name rn = node_Name node \<and>
     rn_Properties rn = node_Properties node \<and>
     chan_buf (InputChan rn) = [] \<and> chan_cap (InputChan rn) = 100 \<and>
     OutputConnections rn = output_connections (flow_Connections flow) (node_ID node)"


text \<open>The node \<open>n\<close> with the messages \<open>cl\<close> added at the end of its input queue.\<close>

definition enqueue :: "'v Message list \<Rightarrow> 'v RuntimeNode \<Rightarrow> 'v RuntimeNode" where
  "enqueue cl n = n\<lparr>InputChan := (InputChan n)\<lparr>chan_buf := chan_buf (InputChan n) @ cl\<rparr>\<rparr>"

text \<open>The free places of the input queue of a node.\<close>

definition room :: "'v RuntimeNode \<Rightarrow> nat" where
  "room n = chan_cap (InputChan n) - length (chan_buf (InputChan n))"




section \<open>Auxiliary facts\<close>

lemmas demo_defs = demo_flow_def inject_node_def debug_node_def wire_def
  RegisterBuiltinBlocks_def Register_def NewRegistry_def builtin_factory_def
  InjectBlockFactory_def DebugBlockFactory_def AdditionBlockFactory_def
  SubtractionBlockFactory_def MultiplicationBlockFactory_def DivisionBlockFactory_def
  InputGroup_def ActionGroup_def PropagationGroup_def demo_engine_def New_def
  NewFlowExecutor_def

subsection \<open>The store\<close>

lemma Clone_fields:
  assumes "Clone st m = (c, st1)"
  shows "msg_ID c = fst (generateID st)" "msg_Payload c = msg_Payload m"
    "msg_Topic c = msg_Topic m" "msg_Source c = msg_Source m" "msg_Target c = msg_Target m"
    "msg_Headers c = (case msg_Headers m of None \<Rightarrow> None | Some a \<Rightarrow> Some (next_addr st))"
    "msg_Context c = (case msg_Context m of None \<Rightarrow> None
        | Some a \<Rightarrow> Some (case msg_Headers m of None \<Rightarrow> next_addr st
                          | Some b \<Rightarrow> Suc (next_addr st)))"
    "hdr_maps st1 = (case msg_Headers m of None \<Rightarrow> hdr_maps st
        | Some a \<Rightarrow> (hdr_maps st)(next_addr st \<mapsto> hdr_of st a))"
    "ctx_maps st1 = (case msg_Context m of None \<Rightarrow> ctx_maps st
        | Some a \<Rightarrow> (ctx_maps st)((case msg_Headers m of None \<Rightarrow> next_addr st
                                   | Some b \<Rightarrow> Suc (next_addr st)) \<mapsto> ctx_of st a))"
    "next_addr st1 = next_addr st + (case msg_Headers m of None \<Rightarrow> 0 | Some a \<Rightarrow> 1)
                       + (case msg_Context m of None \<Rightarrow> 0 | Some a \<Rightarrow> 1)"
  using assms
  by (simp_all add: Clone_def generateID_def Now_def split_beta Let_def make_hdr_def
      make_ctx_def hdr_of_def ctx_of_def split: option.splits, auto)

lemma NewMessage_allocated: "allocated (snd (NewMessage p st)) (fst (NewMessage p st))"
  by (simp add: NewMessage_def generateID_def Now_def make_hdr_def make_ctx_def allocated_def
      split_beta Let_def split: option.splits)



lemma SetHeader_maps:
  "hdr_maps (snd (SetHeader st m k v)) =
     (case msg_Headers m of
        None \<Rightarrow> (hdr_maps st)(next_addr st \<mapsto> [k \<mapsto> v])
      | Some a \<Rightarrow> (hdr_maps st)(a \<mapsto> (hdr_of st a)(k \<mapsto> v)))"
  by (simp add: SetHeader_def make_hdr_def hdr_of_def split: option.splits)

lemma SetContext_maps:
  "ctx_maps (snd (SetContext st m k v)) =
     (case msg_Context m of
        None \<Rightarrow> (ctx_maps st)(next_addr st \<mapsto> [k \<mapsto> v])
      | Some a \<Rightarrow> (ctx_maps st)(a \<mapsto> (ctx_of st a)(k \<mapsto> v)))"
  by (simp add: SetContext_def make_ctx_def ctx_of_def split: option.splits)

lemma GetHeader_alt:
  "GetHeader st m k = (case msg_Headers m of None \<Rightarrow> None
      | Some a \<Rightarrow> (case hdr_maps st a of None \<Rightarrow> None | Some f \<Rightarrow> f k))"
  by (simp add: GetHeader_def hdr_of_def split: option.splits)

lemma GetContext_alt:
  "GetContext st m k = (case msg_Context m of None \<Rightarrow> None
      | Some a \<Rightarrow> (case ctx_maps st a of None \<Rightarrow> None | Some f \<Rightarrow> f k))"
  by (simp add: GetContext_def ctx_of_def split: option.splits)

subsection \<open>Validation\<close>

lemma check_types_None:
  "check_types r nodes = None \<longleftrightarrow> (\<forall>node \<in> set nodes. r (node_Type node) \<noteq> None)"
  by (induction nodes) (auto simp: GetBlockInfoByType_def split: option.splits)

lemma fold_nodeMap_dom:
  "dom (fold (\<lambda>node m. m(node_ID node \<mapsto> node)) nodes m0) = dom m0 \<union> node_ID ` set nodes"
  by (induction nodes arbitrary: m0) auto

lemma dom_build_nodeMap: "dom (build_nodeMap nodes) = node_ID ` set nodes"
  by (simp add: build_nodeMap_def fold_nodeMap_dom)

lemma build_nodeMap_None:
  "build_nodeMap nodes k = None \<longleftrightarrow> k \<notin> node_ID ` set nodes"
  by (simp add: dom_build_nodeMap [symmetric] domIff)

lemma fold_nodeMap_notin:
  "k \<notin> node_ID ` set nodes \<Longrightarrow>
   fold (\<lambda>node m. m(node_ID node \<mapsto> node)) nodes m0 k = m0 k"
  by (induction nodes arbitrary: m0) auto

text \<open>With unique identifiers the map holds each node under its identifier.\<close>

lemma build_nodeMap_distinct:
  assumes "distinct (map node_ID nodes)"
  shows "build_nodeMap nodes k = Some n \<longleftrightarrow> n \<in> set nodes \<and> node_ID n = k"
proof -
  have "fold (\<lambda>node m. m(node_ID node \<mapsto> node)) nodes m0 k = Some n \<longleftrightarrow>
        (n \<in> set nodes \<and> node_ID n = k) \<or> (k \<notin> node_ID ` set nodes \<and> m0 k = Some n)"
    if "distinct (map node_ID nodes)" for m0
    using that
  proof (induction nodes arbitrary: m0)
    case Nil
    then show ?case by simp
  next
    case (Cons a nodes)
    then show ?case by (auto simp: fold_nodeMap_notin)
  qed
  from this [OF assms, of Map.empty] show ?thesis by (simp add: build_nodeMap_def)
qed

lemma build_nodeMap_SomeD:
  "build_nodeMap nodes k = Some n \<Longrightarrow> n \<in> set nodes \<and> node_ID n = k"
proof -
  have "fold (\<lambda>node m. m(node_ID node \<mapsto> node)) nodes m0 k = Some n \<Longrightarrow>
        (n \<in> set nodes \<and> node_ID n = k) \<or> m0 k = Some n" for m0
    by (induction nodes arbitrary: m0) (fastforce split: if_splits)+
  from this [of Map.empty]
  show "build_nodeMap nodes k = Some n \<Longrightarrow> n \<in> set nodes \<and> node_ID n = k"
    by (simp add: build_nodeMap_def)
qed

lemma check_connections_None:
  "check_connections nodeMap conns = None \<longleftrightarrow>
     (\<forall>conn \<in> set conns.
        \<exists>s t. nodeMap (conn_Source conn) = Some s \<and> nodeMap (conn_Target conn) = Some t \<and>
              conn_SourcePort conn < node_Outputs s \<and> conn_TargetPort conn < node_Inputs t)"
  by (induction conns) (auto split: option.splits)

lemma ValidateFlow_fails_general:
  "ValidateFlow r (Some f) \<noteq> None \<longleftrightarrow>
     flow_Nodes f = [] \<or>
     (\<exists>node \<in> set (flow_Nodes f). r (node_Type node) = None) \<or>
     (\<exists>conn \<in> set (flow_Connections f).
        conn_Source conn \<notin> node_ID ` set (flow_Nodes f) \<or>
        conn_Target conn \<notin> node_ID ` set (flow_Nodes f) \<or>
        (\<exists>s. build_nodeMap (flow_Nodes f) (conn_Source conn) = Some s \<and>
             conn_SourcePort conn \<ge> node_Outputs s) \<or>
        (\<exists>t. build_nodeMap (flow_Nodes f) (conn_Target conn) = Some t \<and>
             conn_TargetPort conn \<ge> node_Inputs t))"
proof (cases "flow_Nodes f = []")
  case True
  then show ?thesis by (simp add: ValidateFlow_def)
next
  case ne: False
  show ?thesis
  proof (cases "check_types r (flow_Nodes f)")
    case (Some e)
    then have "\<exists>node \<in> set (flow_Nodes f). r (node_Type node) = None"
      using check_types_None [of r "flow_Nodes f"] by auto
    with Some ne show ?thesis by (simp add: ValidateFlow_def)
  next
    case None
    then have reg: "\<forall>node \<in> set (flow_Nodes f). r (node_Type node) \<noteq> None"
      by (simp add: check_types_None)
    have "ValidateFlow r (Some f) =
            check_connections (build_nodeMap (flow_Nodes f)) (flow_Connections f)"
      using ne None by (simp add: ValidateFlow_def)
    moreover have
      "check_connections (build_nodeMap (flow_Nodes f)) (flow_Connections f) \<noteq> None \<longleftrightarrow>
       (\<exists>conn \<in> set (flow_Connections f).
          conn_Source conn \<notin> node_ID ` set (flow_Nodes f) \<or>
          conn_Target conn \<notin> node_ID ` set (flow_Nodes f) \<or>
          (\<exists>s. build_nodeMap (flow_Nodes f) (conn_Source conn) = Some s \<and>
               conn_SourcePort conn \<ge> node_Outputs s) \<or>
          (\<exists>t. build_nodeMap (flow_Nodes f) (conn_Target conn) = Some t \<and>
               conn_TargetPort conn \<ge> node_Inputs t))"
      unfolding check_connections_None build_nodeMap_None [symmetric]
      by (force simp: not_less)
    ultimately show ?thesis using ne reg by auto
  qed
qed

subsection \<open>Preparation\<close>

lemma update_fresh: "k \<notin> fst ` set al \<Longrightarrow> AList.update k v al = al @ [(k, v)]"
  by (induction al) auto

lemma prepare_nodes_ok:
  assumes "\<forall>node \<in> set ns. fe_registry fe (node_Type node) \<noteq> None"
    and "distinct (map fst acc @ map node_ID ns)"
  shows "\<exists>nodes fe'. prepare_nodes flow ns acc fe = (Inr nodes, fe') \<and>
           fe_registry fe' = fe_registry fe \<and> fe_heap fe' = fe_heap fe \<and>
           fe_flows fe' = fe_flows fe \<and> fe_workers fe' = fe_workers fe \<and>
           fe_closed fe' = fe_closed fe \<and> fe_calls fe' = fe_calls fe \<and>
           map fst nodes = map fst acc @ map node_ID ns \<and>
           (\<forall>k \<in> fst ` set acc. map_of nodes k = map_of acc k) \<and>
           (\<forall>node \<in> set ns. \<exists>rn. map_of nodes (node_ID node) = Some rn \<and>
                                  runtime_node_of flow node rn)"
  using assms
proof (induction ns arbitrary: acc fe)
  case Nil
  then show ?case by simp
next
  case (Cons node ns)
  from Cons.prems obtain factory where fac: "fe_registry fe (node_Type node) = Some factory"
    by auto
  define rn where
    "rn = \<lparr>rn_ID = node_ID node, rn_Type = node_Type node, rn_Name = node_Name node,
           rn_Block = CreateBlock factory, rn_Properties = node_Properties node,
           InputChan = make_chan 100, OutputChan = make_chan 100,
           OutputConnections = output_connections (flow_Connections flow) (node_ID node),
           rn_StopChan = fe_next_signal fe\<rparr>"
  define fe2 where
    "fe2 = log (DEBUG, ''Created runtime node'',
                [(''node_id'', FStr (node_ID node)),
                 (''node_type'', FStr (node_Type node)),
                 (''block_group'', FStr (bi_BlockGroup (GetBlockInfo factory))),
                 (''connections'', FInt (int (length (OutputConnections rn))))])
             (fe\<lparr>fe_next_signal := Suc (fe_next_signal fe)\<rparr>)"
  have step: "prepare_nodes flow (node # ns) acc fe =
              prepare_nodes flow ns (AList.update (node_ID node) rn acc) fe2"
    using fac
    by (simp add: Registry_CreateBlock_def GetBlockInfoByType_def make_signal_def rn_def fe2_def
        Let_def)
  have fresh: "node_ID node \<notin> fst ` set acc"
    using Cons.prems(2) by auto
  have upd: "AList.update (node_ID node) rn acc = acc @ [(node_ID node, rn)]"
    using fresh by (rule update_fresh)
  have fe2: "fe_registry fe2 = fe_registry fe" "fe_heap fe2 = fe_heap fe"
    "fe_flows fe2 = fe_flows fe" "fe_workers fe2 = fe_workers fe" "fe_closed fe2 = fe_closed fe"
    "fe_calls fe2 = fe_calls fe"
    by (simp_all add: fe2_def log_def)
  have p1: "\<forall>n \<in> set ns. fe_registry fe2 (node_Type n) \<noteq> None"
    using Cons.prems(1) fe2 by simp
  have p2: "distinct (map fst (acc @ [(node_ID node, rn)]) @ map node_ID ns)"
    using Cons.prems(2) by auto
  from Cons.IH [OF p1 p2] obtain nodes fe' where
    r: "prepare_nodes flow ns (acc @ [(node_ID node, rn)]) fe2 = (Inr nodes, fe')"
    and fr: "fe_registry fe' = fe_registry fe2" "fe_heap fe' = fe_heap fe2"
      "fe_flows fe' = fe_flows fe2" "fe_workers fe' = fe_workers fe2"
      "fe_closed fe' = fe_closed fe2" "fe_calls fe' = fe_calls fe2"
    and keys: "map fst nodes = map fst (acc @ [(node_ID node, rn)]) @ map node_ID ns"
    and old: "\<forall>k \<in> fst ` set (acc @ [(node_ID node, rn)]).
                 map_of nodes k = map_of (acc @ [(node_ID node, rn)]) k"
    and new: "\<forall>n \<in> set ns. \<exists>rn. map_of nodes (node_ID n) = Some rn \<and> runtime_node_of flow n rn"
    by blast
  have none: "map_of acc (node_ID node) = None"
    using fresh by (simp add: map_of_eq_None_iff)
  have "map_of nodes (node_ID node) = map_of (acc @ [(node_ID node, rn)]) (node_ID node)"
    using old by simp
  then have here: "map_of nodes (node_ID node) = Some rn"
    using none by (simp add: map_add_def)
  have rn_ok: "runtime_node_of flow node rn"
    by (simp add: runtime_node_of_def rn_def make_chan_def)
  have old': "\<forall>k \<in> fst ` set acc. map_of nodes k = map_of acc k"
  proof
    fix k assume k: "k \<in> fst ` set acc"
    then have "map_of nodes k = map_of (acc @ [(node_ID node, rn)]) k" using old by auto
    also have "\<dots> = map_of acc k"
    proof -
      have "map_of acc k \<noteq> None" using k by (simp add: map_of_eq_None_iff)
      then show ?thesis by (auto simp: map_add_def split: option.splits)
    qed
    finally show "map_of nodes k = map_of acc k" .
  qed
  show ?case
    using step upd r fr fe2 keys old' new here rn_ok by auto
qed

section \<open>Validation of a flow definition\<close>

text \<open>
  C2. \<open>ValidateFlow\<close> fails exactly when the flow has no node, or a node has a block type
  the registry does not hold, or a connection names a source or a target that is not the
  identifier of a node, or its source port is at least the output count declared by its
  source node, or its target port is at least the input count declared by its target node;
  in every other case it succeeds. The node a connection end refers to is the one the
  code's \<open>nodeMap\<close> holds under that identifier; the second part says the same for flows
  with unique node identifiers in terms of the nodes of the flow.
\<close>

theorem ValidateFlow_fails_iff:
  "(ValidateFlow r (Some f) \<noteq> None \<longleftrightarrow>
      flow_Nodes f = [] \<or>
      (\<exists>node \<in> set (flow_Nodes f). r (node_Type node) = None) \<or>
      (\<exists>conn \<in> set (flow_Connections f).
         conn_Source conn \<notin> node_ID ` set (flow_Nodes f) \<or>
         conn_Target conn \<notin> node_ID ` set (flow_Nodes f) \<or>
         (\<exists>s. build_nodeMap (flow_Nodes f) (conn_Source conn) = Some s \<and>
              conn_SourcePort conn \<ge> node_Outputs s) \<or>
         (\<exists>t. build_nodeMap (flow_Nodes f) (conn_Target conn) = Some t \<and>
              conn_TargetPort conn \<ge> node_Inputs t))) \<and>
   (distinct (map node_ID (flow_Nodes f)) \<longrightarrow>
    (ValidateFlow r (Some f) \<noteq> None \<longleftrightarrow>
      flow_Nodes f = [] \<or>
      (\<exists>node \<in> set (flow_Nodes f). r (node_Type node) = None) \<or>
      (\<exists>conn \<in> set (flow_Connections f).
         conn_Source conn \<notin> node_ID ` set (flow_Nodes f) \<or>
         conn_Target conn \<notin> node_ID ` set (flow_Nodes f) \<or>
         (\<exists>s \<in> set (flow_Nodes f). node_ID s = conn_Source conn \<and>
              conn_SourcePort conn \<ge> node_Outputs s) \<or>
         (\<exists>t \<in> set (flow_Nodes f). node_ID t = conn_Target conn \<and>
              conn_TargetPort conn \<ge> node_Inputs t))))"
proof (intro conjI impI)
  show "ValidateFlow r (Some f) \<noteq> None \<longleftrightarrow>
      flow_Nodes f = [] \<or>
      (\<exists>node \<in> set (flow_Nodes f). r (node_Type node) = None) \<or>
      (\<exists>conn \<in> set (flow_Connections f).
         conn_Source conn \<notin> node_ID ` set (flow_Nodes f) \<or>
         conn_Target conn \<notin> node_ID ` set (flow_Nodes f) \<or>
         (\<exists>s. build_nodeMap (flow_Nodes f) (conn_Source conn) = Some s \<and>
              conn_SourcePort conn \<ge> node_Outputs s) \<or>
         (\<exists>t. build_nodeMap (flow_Nodes f) (conn_Target conn) = Some t \<and>
              conn_TargetPort conn \<ge> node_Inputs t))"
    by (rule ValidateFlow_fails_general)
next
  assume d: "distinct (map node_ID (flow_Nodes f))"
  show "ValidateFlow r (Some f) \<noteq> None \<longleftrightarrow>
      flow_Nodes f = [] \<or>
      (\<exists>node \<in> set (flow_Nodes f). r (node_Type node) = None) \<or>
      (\<exists>conn \<in> set (flow_Connections f).
         conn_Source conn \<notin> node_ID ` set (flow_Nodes f) \<or>
         conn_Target conn \<notin> node_ID ` set (flow_Nodes f) \<or>
         (\<exists>s \<in> set (flow_Nodes f). node_ID s = conn_Source conn \<and>
              conn_SourcePort conn \<ge> node_Outputs s) \<or>
         (\<exists>t \<in> set (flow_Nodes f). node_ID t = conn_Target conn \<and>
              conn_TargetPort conn \<ge> node_Inputs t))"
    unfolding ValidateFlow_fails_general build_nodeMap_distinct [OF d] by blast
qed

text \<open>
  The theorem at two flows over the built-in registry: a wire from output port 2 of a node
  with one output is rejected, the wire from port 0 to port 0 is accepted.
\<close>

theorem ValidateFlow_fails_iff_witness:
  "distinct (map node_ID (flow_Nodes (demo_flow [wire 2 0]))) \<and>
   ValidateFlow (RegisterBuiltinBlocks NewRegistry) (Some (demo_flow [wire 2 0])) \<noteq> None \<and>
   ValidateFlow (RegisterBuiltinBlocks NewRegistry) (Some (demo_flow [wire 0 0])) = None"
  using ValidateFlow_fails_iff [of "RegisterBuiltinBlocks NewRegistry" "demo_flow [wire 2 0]"]
        ValidateFlow_fails_iff [of "RegisterBuiltinBlocks NewRegistry" "demo_flow [wire 0 0]"]
  by (simp add: demo_defs build_nodeMap_def)

text \<open>
  C10. Port validation has no lower bound. In a flow whose nodes have registered types and
  declare no negative port count, and whose connections join existing nodes, a port index
  below zero is never rejected: the flow passes whenever each port index is negative or
  below the count its node declares. The flow of the witness has a wire from port \<open>-1\<close>.
\<close>

theorem ValidateFlow_accepts_negative_ports:
  assumes ne: "flow_Nodes f \<noteq> []"
    and reg: "\<forall>node \<in> set (flow_Nodes f).
                r (node_Type node) \<noteq> None \<and> 0 \<le> node_Inputs node \<and> 0 \<le> node_Outputs node"
    and conns: "\<forall>conn \<in> set (flow_Connections f).
                conn_Source conn \<in> node_ID ` set (flow_Nodes f) \<and>
                conn_Target conn \<in> node_ID ` set (flow_Nodes f) \<and>
                (\<forall>s \<in> set (flow_Nodes f). node_ID s = conn_Source conn \<longrightarrow>
                   conn_SourcePort conn < 0 \<or> conn_SourcePort conn < node_Outputs s) \<and>
                (\<forall>t \<in> set (flow_Nodes f). node_ID t = conn_Target conn \<longrightarrow>
                   conn_TargetPort conn < 0 \<or> conn_TargetPort conn < node_Inputs t)"
  shows "ValidateFlow r (Some f) = None"
proof -
  have ty: "check_types r (flow_Nodes f) = None"
    using reg by (simp add: check_types_None)
  have "check_connections (build_nodeMap (flow_Nodes f)) (flow_Connections f) = None"
    unfolding check_connections_None
  proof
    fix conn assume c: "conn \<in> set (flow_Connections f)"
    from c conns obtain s t where
      s: "build_nodeMap (flow_Nodes f) (conn_Source conn) = Some s" and
      t: "build_nodeMap (flow_Nodes f) (conn_Target conn) = Some t"
      using build_nodeMap_None [of "flow_Nodes f"] by (metis not_None_eq)
    note sd = build_nodeMap_SomeD [OF s] and td = build_nodeMap_SomeD [OF t]
    from sd td reg have "0 \<le> node_Outputs s" "0 \<le> node_Inputs t" by auto
    moreover from c conns sd
    have "conn_SourcePort conn < 0 \<or> conn_SourcePort conn < node_Outputs s" by blast
    moreover from c conns td
    have "conn_TargetPort conn < 0 \<or> conn_TargetPort conn < node_Inputs t" by blast
    ultimately
    have "conn_SourcePort conn < node_Outputs s \<and> conn_TargetPort conn < node_Inputs t"
      by linarith
    with s t
    show "\<exists>s t. build_nodeMap (flow_Nodes f) (conn_Source conn) = Some s \<and>
                build_nodeMap (flow_Nodes f) (conn_Target conn) = Some t \<and>
                conn_SourcePort conn < node_Outputs s \<and> conn_TargetPort conn < node_Inputs t"
      by blast
  qed
  with ne ty show ?thesis by (simp add: ValidateFlow_def)
qed

theorem ValidateFlow_accepts_negative_ports_witness:
  "conn_SourcePort (wire (- 1) 0) = - 1 \<and>
   ValidateFlow (RegisterBuiltinBlocks NewRegistry) (Some (demo_flow [wire (- 1) 0])) = None"
  using ValidateFlow_accepts_negative_ports
          [of "demo_flow [wire (- 1) 0]" "RegisterBuiltinBlocks NewRegistry"]
  by (simp add: demo_defs)

section \<open>Preparation of a valid flow\<close>

text \<open>
  C3. For a flow definition that passes \<open>ValidateFlow\<close> and has unique node identifiers,
  \<open>PrepareFlow\<close> does not fail. (No block instantiation can fail then: \<open>CreateBlock\<close>
  only fails for a type the registry does not hold, and validation has excluded that.) It
  returns a new \<open>RuntimeFlow\<close> that is not running and whose node map has exactly the
  node identifiers of the definition as keys, each once, with under each key the runtime
  node built for that node.
\<close>

theorem PrepareFlow_valid:
  assumes v: "ValidateFlow (fe_registry fe) (Some f) = None"
    and d: "distinct (map node_ID (flow_Nodes f))"
  shows "\<exists>a fe' rf. PrepareFlow fe (Some f) = (Inr a, fe') \<and>
           deref fe' a = Some rf \<and> deref fe a = None \<and>
           \<not> Running rf \<and> rf_ID rf = flow_ID f \<and>
           map fst (rf_Nodes rf) = map node_ID (flow_Nodes f) \<and>
           length (rf_Nodes rf) = length (flow_Nodes f) \<and>
           (\<forall>node \<in> set (flow_Nodes f).
              \<exists>rn. map_of (rf_Nodes rf) (node_ID node) = Some rn \<and> runtime_node_of f node rn)"
proof -
  have ne: "flow_Nodes f \<noteq> []" and ty: "check_types (fe_registry fe) (flow_Nodes f) = None"
    using v by (auto simp: ValidateFlow_def split: if_splits option.splits)
  define fe1 where "fe1 = fe\<lparr>fe_next_signal := Suc (fe_next_signal fe)\<rparr>"
  have reg: "\<forall>node \<in> set (flow_Nodes f). fe_registry fe1 (node_Type node) \<noteq> None"
    using ty by (simp add: check_types_None fe1_def)
  from prepare_nodes_ok [of "flow_Nodes f" fe1 "[]" f, OF reg] d
  obtain nodes fe2 where
    r: "prepare_nodes f (flow_Nodes f) [] fe1 = (Inr nodes, fe2)"
    and h: "fe_heap fe2 = fe_heap fe1"
    and keys: "map fst nodes = map node_ID (flow_Nodes f)"
    and new: "\<forall>n \<in> set (flow_Nodes f).
                \<exists>rn. map_of nodes (node_ID n) = Some rn \<and> runtime_node_of f n rn"
    by auto
  have len: "length nodes = length (flow_Nodes f)"
    using keys by (metis length_map)
  have "PrepareFlow fe (Some f) =
          (Inr (length (fe_heap fe2)),
           fe2\<lparr>fe_heap := fe_heap fe2 @
                  [\<lparr>rf_ID = flow_ID f, rf_Name = flow_Name f, rf_Nodes = nodes,
                    rf_Connections = flow_Connections f, rf_StopChan = fe_next_signal fe,
                    rf_WaitGroup = 0, Running = False\<rparr>]\<rparr>)"
    using v r by (simp add: PrepareFlow_def make_signal_def fe1_def)
  then show ?thesis
    using h keys new len by (simp add: deref_def fe1_def)
qed

theorem PrepareFlow_valid_witness:
  "ValidateFlow (fe_registry (eng_executor demo_engine)) (Some (demo_flow [wire 0 0])) = None \<and>
   distinct (map node_ID (flow_Nodes (demo_flow [wire 0 0]))) \<and>
   (\<exists>a fe' rf. PrepareFlow (eng_executor demo_engine) (Some (demo_flow [wire 0 0])) = (Inr a, fe') \<and>
      deref fe' a = Some rf \<and> \<not> Running rf \<and> map fst (rf_Nodes rf) = [''n1'', ''n2''])"
proof -
  have v: "ValidateFlow (fe_registry (eng_executor demo_engine)) (Some (demo_flow [wire 0 0])) = None"
    by (simp add: demo_defs ValidateFlow_def build_nodeMap_def GetBlockInfoByType_def)
  have d: "distinct (map node_ID (flow_Nodes (demo_flow [wire 0 0])))"
    by (simp add: demo_defs)
  have k: "map node_ID (flow_Nodes (demo_flow [wire 0 0])) = [''n1'', ''n2'']"
    by (simp add: demo_defs)
  from PrepareFlow_valid [OF v d] obtain a fe' rf where
    "PrepareFlow (eng_executor demo_engine) (Some (demo_flow [wire 0 0])) = (Inr a, fe')"
    "deref fe' a = Some rf" "\<not> Running rf"
    "map fst (rf_Nodes rf) = map node_ID (flow_Nodes (demo_flow [wire 0 0]))"
    by blast
  then have "\<exists>a fe' rf.
      PrepareFlow (eng_executor demo_engine) (Some (demo_flow [wire 0 0])) = (Inr a, fe') \<and>
      deref fe' a = Some rf \<and> \<not> Running rf \<and> map fst (rf_Nodes rf) = [''n1'', ''n2'']"
    unfolding k by auto
  with v d show ?thesis by simp
qed

section \<open>Cloning a message\<close>

text \<open>
  C4 asks for an identifier different from the original's. The identifier of a
  clone is whatever \<open>generateID\<close> returns, and nothing keeps the random source from
  returning the sixteen bytes whose hexadecimal text the original carries: then the two
  identifiers are equal.
\<close>

theorem Clone_identifier_counterexample:
  "msg_ID (fst (Clone demo_store demo_msg)) = msg_ID demo_msg"
  by code_simp

text \<open>
  C4, amended. The identifier of \<open>Clone st m\<close> is the one \<open>generateID\<close> produces in
  \<open>st\<close>, made from the random source (or the clock) alone and not from \<open>m\<close>. The
  payload is that of \<open>m\<close>. A nil header or context map stays nil; any other is copied into
  a map at a new address with the same entries. Cloning changes no header or context entry
  of \<open>m\<close>, and afterwards setting a header or a context entry on the clone changes none of
  \<open>m\<close>, and setting one on \<open>m\<close> changes none of the clone.
\<close>

theorem Clone_copies_and_isolates:
  assumes al: "allocated st m" and cl: "Clone st m = (c, st1)"
  shows "msg_ID c = fst (generateID st) \<and> msg_Payload c = msg_Payload m \<and>
         (case msg_Headers m of None \<Rightarrow> msg_Headers c = None
          | Some a \<Rightarrow> (\<exists>a'. msg_Headers c = Some a' \<and> a' \<noteq> a \<and> next_addr st \<le> a')) \<and>
         (case msg_Context m of None \<Rightarrow> msg_Context c = None
          | Some a \<Rightarrow> (\<exists>a'. msg_Context c = Some a' \<and> a' \<noteq> a \<and> next_addr st \<le> a')) \<and>
         GetHeader st1 c k' = GetHeader st m k' \<and>
         GetContext st1 c k' = GetContext st m k' \<and>
         GetHeader st1 m k' = GetHeader st m k' \<and>
         GetContext st1 m k' = GetContext st m k' \<and>
         GetHeader (snd (SetHeader st1 c k v)) m k' = GetHeader st m k' \<and>
         GetHeader (snd (SetHeader st1 m k v)) c k' = GetHeader st m k' \<and>
         GetContext (snd (SetContext st1 c k w)) m k' = GetContext st m k' \<and>
         GetContext (snd (SetContext st1 m k w)) c k' = GetContext st m k'"
proof -
  note f = Clone_fields [OF cl]
  have ids: "msg_ID c = fst (generateID st) \<and> msg_Payload c = msg_Payload m"
    using f by simp
  have h1: "(case msg_Headers m of None \<Rightarrow> msg_Headers c = None
          | Some a \<Rightarrow> (\<exists>a'. msg_Headers c = Some a' \<and> a' \<noteq> a \<and> next_addr st \<le> a'))"
    using al f(6) by (auto simp: allocated_def split: option.splits)
  have h2: "(case msg_Context m of None \<Rightarrow> msg_Context c = None
          | Some a \<Rightarrow> (\<exists>a'. msg_Context c = Some a' \<and> a' \<noteq> a \<and> next_addr st \<le> a'))"
    using al f(7) by (auto simp: allocated_def split: option.splits)
  have g1: "GetHeader st1 c k' = GetHeader st m k'"
    using al by (auto simp: GetHeader_alt f(6,8) hdr_of_def allocated_def split: option.splits)
  have g2: "GetContext st1 c k' = GetContext st m k'"
    using al by (auto simp: GetContext_alt f(7,9) ctx_of_def allocated_def split: option.splits)
  have g3: "GetHeader st1 m k' = GetHeader st m k'"
    using al by (auto simp: GetHeader_alt f(8) allocated_def split: option.splits)
  have g4: "GetContext st1 m k' = GetContext st m k'"
    using al by (auto simp: GetContext_alt f(9) allocated_def split: option.splits)
  have i1: "GetHeader (snd (SetHeader st1 c k v)) m k' = GetHeader st m k'"
    using al
    by (auto simp: GetHeader_alt SetHeader_maps f(6,8,10) allocated_def split: option.splits)
  have i2: "GetHeader (snd (SetHeader st1 m k v)) c k' = GetHeader st m k'"
    using al
    by (auto simp: GetHeader_alt SetHeader_maps f(6,8,10) hdr_of_def allocated_def
        split: option.splits)
  have i3: "GetContext (snd (SetContext st1 c k w)) m k' = GetContext st m k'"
    using al
    by (auto simp: GetContext_alt SetContext_maps f(7,9,10) allocated_def split: option.splits)
  have i4: "GetContext (snd (SetContext st1 m k w)) c k' = GetContext st m k'"
    using al
    by (auto simp: GetContext_alt SetContext_maps f(7,9,10) ctx_of_def allocated_def
        split: option.splits)
  show ?thesis using ids h1 h2 g1 g2 g3 g4 i1 i2 i3 i4 by blast
qed

text \<open>
  The theorem at the example message, whose header \<open>k\<close> is \<open>v\<close>: after the clone's
  header \<open>k\<close> is set to \<open>w\<close>, the original still reads \<open>v\<close>.
\<close>

theorem Clone_copies_and_isolates_witness:
  "allocated demo_store demo_msg \<and>
   msg_Payload (fst (Clone demo_store demo_msg)) = Num 42 \<and>
   GetHeader (snd (SetHeader (snd (Clone demo_store demo_msg))
                     (fst (Clone demo_store demo_msg)) ''k'' ''w'')) demo_msg ''k'' = Some ''v''"
proof -
  have al: "allocated demo_store demo_msg"
    by (simp add: allocated_def demo_store_def demo_msg_def)
  have cl: "Clone demo_store demo_msg =
              (fst (Clone demo_store demo_msg), snd (Clone demo_store demo_msg))"
    by simp
  have g: "GetHeader demo_store demo_msg ''k'' = Some ''v''"
    by (simp add: GetHeader_def hdr_of_def demo_store_def demo_msg_def)
  have p: "msg_Payload demo_msg = Num 42"
    by (simp add: demo_msg_def)
  from Clone_copies_and_isolates [OF al cl, of "''k''" "''k''" "''w''"] al g p
  show ?thesis by simp
qed

section \<open>Fan-out\<close>

lemma enqueue_Nil [simp]: "enqueue [] n = n"
  by (simp add: enqueue_def)

lemma enqueue_enqueue [simp]: "enqueue cl (enqueue cl0 n) = enqueue (cl0 @ cl) n"
  by (simp add: enqueue_def)

lemma room_enqueue [simp]: "room (enqueue cl n) = room n - length cl"
  by (simp add: room_def enqueue_def)

subsection \<open>Stores along the loop\<close>














subsection \<open>The loop\<close>













text \<open>
  The fallback branch of \<open>generateID\<close> gives no more: when the random source fails and
  the clock does not advance between two readings, a message and its clone carry the same
  identifier.
\<close>

lemma Sprintf_d_example: "Sprintf_d 1700000000 = ''1700000000''"
  by (simp add: Sprintf_d_def dec_digits.simps)

lemma Clone_identifier_fallback_collision:
  "msg_ID (fst coarse_msg) = ''id_1700000000'' \<and>
   msg_ID (fst (Clone (snd coarse_msg) (fst coarse_msg))) = msg_ID (fst coarse_msg)"
  by (simp add: coarse_msg_def coarse_store_def NewMessage_def Clone_def generateID_def Now_def
      make_hdr_def make_ctx_def split_beta Let_def Sprintf_d_example)

section \<open>What a worker passes to \<open>Execute\<close>\<close>

lemma distribute_all_calls:
  "fe_calls (snd (distribute_all a node messages (st, fe))) = fe_calls fe"
proof -
  have "fe_calls (snd (fold (\<lambda>msg s. case s of (st, fe) \<Rightarrow>
             (case deref fe a of
                None \<Rightarrow> (st, fe)
              | Some flow \<Rightarrow>
                 (case distributeMessage node msg (st, flow, fe_logs fe) of
                    (st1, flow1, lg1) \<Rightarrow> (st1, (store_flow a flow1 fe)\<lparr>fe_logs := lg1\<rparr>))))
          messages s)) = fe_calls (snd s)" for s
    by (induction messages arbitrary: s)
       (auto simp: store_flow_def split: option.splits prod.splits)
  from this [of "(st, fe)"] show ?thesis by (simp add: distribute_all_def)
qed

lemma call_Execute_calls:
  "call_Execute exec node ctx (st, fe) = (res, st1, fe1) \<Longrightarrow>
   fe_calls fe1 = fe_calls fe @ [(rn_ID node, ctx)]"
  by (auto simp: call_Execute_def split_beta)

lemma runNode_return_calls [simp]: "fe_calls (runNode_return wk fe) = fe_calls fe"
  by (simp add: runNode_return_def log_def store_flow_def Let_def split: option.splits)

lemma runNode_begin_calls: "runNode_begin wk fe = Some fe' \<Longrightarrow> fe_calls fe' = fe_calls fe"
  by (auto simp: runNode_begin_def log_def Let_def split: option.splits if_splits)

lemma receive_calls: "receive wk flow node fe = Some (msg, fe0) \<Longrightarrow>
   fe_calls fe0 = fe_calls fe \<and> (\<exists>rest. chan_buf (InputChan node) = msg # rest)"
  by (auto simp: receive_def store_flow_def split: list.splits)

lemma tick_calls:
  "runInputNode_tick exec wk node (st, fe) = (st', fe') \<Longrightarrow>
   fe_calls fe' = fe_calls fe @ [(rn_ID node, exec_ctx node None)]"
  unfolding runInputNode_tick_def
  by (auto simp: log_def distribute_all_calls [THEN sym] dest!: call_Execute_calls
      split: prod.splits sum.splits)
     (metis distribute_all_calls snd_conv)

lemma propagation_calls:
  "runPropagationNode_receive exec wk flow node (st, fe) = Some (st', fe') \<Longrightarrow>
   \<exists>msg rest. chan_buf (InputChan node) = msg # rest \<and>
     fe_calls fe' = fe_calls fe @ [(rn_ID node, exec_ctx node (Some msg))]"
  unfolding runPropagationNode_receive_def
  by (auto simp: log_def dest!: call_Execute_calls receive_calls
      split: prod.splits sum.splits option.splits)
     (metis distribute_all_calls snd_conv)

lemma action_calls:
  "runActionNode_receive exec wk flow node (st, fe) = Some (st', fe') \<Longrightarrow>
   \<exists>msg rest. chan_buf (InputChan node) = msg # rest \<and>
     fe_calls fe' = fe_calls fe @ [(rn_ID node, exec_ctx node (Some msg))]"
  unfolding runActionNode_receive_def
  by (auto simp: log_def dest!: call_Execute_calls receive_calls
      split: prod.splits sum.splits option.splits)

text \<open>
  Every piece of a worker makes at most one call of \<open>Execute\<close>: none outside the loop
  rounds, one in a round. The context of the call carries the identifier of the worker's
  node and the logger; an input worker passes no message, a propagation or action worker
  the message it has just taken from the head of its queue. The flow identifier is empty,
  and there is neither a \<open>context.Context\<close> nor a state map.
\<close>

lemma worker_Execute_context:
  assumes "runNode_step exec ev wk (st, fe) = Some (st', fe')"
  shows "(ev \<noteq> Tick \<and> ev \<noteq> Receive \<and> fe_calls fe' = fe_calls fe) \<or>
         (\<exists>flow node ctx.
            node_of fe wk = Some (flow, node) \<and>
            fe_calls fe' = fe_calls fe @ [(rn_ID node, ctx)] \<and>
            ctx_NodeID ctx = rn_ID node \<and> ctx_Logger ctx = Some LoggerAdapter \<and>
            ctx_FlowID ctx = [] \<and> ctx_Context ctx = None \<and> ctx_State ctx = None \<and>
            ((ev = Tick \<and> wk_phase wk = Active InputGroup \<and> ctx_Message ctx = None) \<or>
             (ev = Receive \<and>
              (wk_phase wk = Active PropagationGroup \<or> wk_phase wk = Active ActionGroup) \<and>
              (\<exists>msg rest. chan_buf (InputChan node) = msg # rest \<and>
                          ctx_Message ctx = Some msg))))"
proof -
  from assms obtain flow node where nd: "node_of fe wk = Some (flow, node)"
    by (auto simp: runNode_step_def split: if_splits option.splits)
  show ?thesis
  proof (cases "wk_phase wk")
    case Spawned
    with assms nd have "ev = Begin" "runNode_begin wk fe = Some fe'"
      by (auto simp: runNode_step_def split: if_splits)
    then show ?thesis by (simp add: runNode_begin_calls)
  next
    case (Active g)
    show ?thesis
    proof (cases ev)
      case Begin
      with assms nd Active show ?thesis by (simp add: runNode_step_def split: if_splits)
    next
      case FlowStop
      with assms nd Active show ?thesis by (auto simp: runNode_step_def split: if_splits)
    next
      case NodeStop
      with assms nd Active show ?thesis by (auto simp: runNode_step_def split: if_splits)
    next
      case Tick
      with assms nd Active have g: "g = InputGroup"
        and r: "runInputNode_tick exec wk node (st, fe) = (st', fe')"
        by (auto simp: runNode_step_def split: if_splits)
      from tick_calls [OF r] nd Active g Tick show ?thesis
        by (simp add: exec_ctx_def)
    next
      case Receive
      with assms nd Active have
        "(g = PropagationGroup \<and>
            runPropagationNode_receive exec wk flow node (st, fe) = Some (st', fe'))
         \<or> (g = ActionGroup \<and>
            runActionNode_receive exec wk flow node (st, fe) = Some (st', fe'))"
        by (auto simp: runNode_step_def split: if_splits)
      then obtain msg rest where "chan_buf (InputChan node) = msg # rest"
        "fe_calls fe' = fe_calls fe @ [(rn_ID node, exec_ctx node (Some msg))]"
        "g = PropagationGroup \<or> g = ActionGroup"
        using propagation_calls action_calls by blast
      with nd Active Receive show ?thesis
        by (simp add: exec_ctx_def)
    qed
  qed
qed

text \<open>
  C7. The worker of the debug node \<open>n2\<close> of the running flow \<open>f1\<close> takes a message from
  its queue and calls \<open>Execute\<close> once. The context of that call has the empty string as
  flow identifier, no \<open>context.Context\<close> (so no cancellation signal) and no state map,
  where the specification asks for the flow identifier, a cancellation signal and a state
  store that persists. It does carry the node identifier, the logger and the message taken.
\<close>

theorem worker_context_lacks_flow_cancel_state:
  "\<not> Option.is_none demo_receive \<and>
   map rf_ID (fe_heap demo_executor) = [''f1''] \<and>
   map fst (fe_calls (snd (the demo_receive))) = [''n2''] \<and>
   map (ctx_FlowID \<circ> snd) (fe_calls (snd (the demo_receive))) = [[]] \<and>
   map (ctx_Context \<circ> snd) (fe_calls (snd (the demo_receive))) = [None] \<and>
   map (ctx_State \<circ> snd) (fe_calls (snd (the demo_receive))) = [None] \<and>
   map (ctx_NodeID \<circ> snd) (fe_calls (snd (the demo_receive))) = [''n2''] \<and>
   map (ctx_Logger \<circ> snd) (fe_calls (snd (the demo_receive))) = [Some LoggerAdapter] \<and>
   map (ctx_Message \<circ> snd) (fe_calls (snd (the demo_receive))) = [Some demo_msg]"
  by code_simp

section \<open>The ticker of an input worker\<close>

text \<open>
  What a round of the input loop does with the outcome of \<open>Execute\<close>: an error is logged
  and the worker stays in its loop; every returned message goes to \<open>distributeMessage\<close>.
\<close>

lemma runInputNode_tick_outcome:
  "call_Execute exec node (exec_ctx node None) (st, fe) = (res, st1, fe1) \<Longrightarrow>
   runInputNode_tick exec wk node (st, fe) =
     (case res of
        Inl err \<Rightarrow> (st1, log (ERROR, ''Error executing input node'',
                             [(''node_id'', FStr (rn_ID node)), (''error'', FErr err)]) fe1)
      | Inr messages \<Rightarrow> distribute_all (wk_flow wk) node messages (st1, fe1))"
  by (simp add: runInputNode_tick_def split: sum.splits)

text \<open>
  The other two loops after a message has been taken: a propagation worker forwards every
  returned message in the same way, an action worker forwards none.
\<close>

lemma runPropagationNode_receive_outcome:
  "receive wk flow node fe = Some (msg, fe0) \<Longrightarrow>
   call_Execute exec node (exec_ctx node (Some msg)) (st, fe0) = (res, st1, fe1) \<Longrightarrow>
   runPropagationNode_receive exec wk flow node (st, fe) =
     Some (case res of
             Inl err \<Rightarrow> (st1, log (ERROR, ''Error executing propagation node'',
                                  [(''node_id'', FStr (rn_ID node)), (''error'', FErr err)]) fe1)
           | Inr messages \<Rightarrow> distribute_all (wk_flow wk) node messages (st1, fe1))"
  by (simp add: runPropagationNode_receive_def split: sum.splits)

lemma runActionNode_receive_outcome:
  "receive wk flow node fe = Some (msg, fe0) \<Longrightarrow>
   call_Execute exec node (exec_ctx node (Some msg)) (st, fe0) = (res, st1, fe1) \<Longrightarrow>
   runActionNode_receive exec wk flow node (st, fe) =
     Some (case res of
             Inl err \<Rightarrow> (st1, log (ERROR, ''Error executing action node'',
                                  [(''node_id'', FStr (rn_ID node)), (''error'', FErr err)]) fe1)
           | Inr messages \<Rightarrow> (st1, fe1))"
  by (simp add: runActionNode_receive_def split: sum.splits)

lemma runInputNode_ticker_fixed: "runInputNode_ticker node = 1000 * Millisecond"
  by (simp add: runInputNode_ticker_def Second_def)

text \<open>
  C6. The inject node of the example asks for one message every 5000 milliseconds. The
  ticker of its worker has a period of 1000 milliseconds, as for every input node: the
  period is a constant of \<open>runInputNode\<close>, which does not read the node's properties.
\<close>

theorem input_ticker_ignores_interval:
  "rn_Properties demo_source ''interval'' = Some (Num 5000) \<and>
   runInputNode_ticker demo_source = 1000 * Millisecond \<and>
   runInputNode_ticker demo_source \<noteq> 5000 * Millisecond"
  by code_simp

section \<open>Starting, stopping and triggering\<close>

text \<open>\<open>StartFlow\<close> itself turns a running flow down and changes nothing.\<close>

lemma StartFlow_rejects_running:
  "fe_flows fe flowID = Some a \<Longrightarrow> deref fe a = Some rf \<Longrightarrow> Running rf \<Longrightarrow>
   StartFlow fe flowID = (Some (AlreadyRunning flowID), fe)"
  by (simp add: StartFlow_def)

text \<open>
  C1. The flow \<open>f1\<close> is started through the engine and, while it runs, started through
  the engine again. The second start does not fail: \<open>PrepareAndStartFlow\<close> has put a
  newly prepared \<open>RuntimeFlow\<close> (address 1) in the place of the running one (address 0)
  before \<open>StartFlow\<close> looks at the running flag. Afterwards both objects are running, the
  two workers of the first are still live beside the two new ones, and the executor only
  knows the second object.
\<close>

theorem Engine_StartFlow_twice_restarts:
  "fst first_start = None \<and> fst second_start = None \<and>
   fe_flows (eng_executor (snd first_start)) ''f1'' = Some 0 \<and>
   fe_flows (eng_executor (snd second_start)) ''f1'' = Some 1 \<and>
   map wk_flow (fe_workers (eng_executor (snd first_start))) = [0, 0] \<and>
   map wk_flow (fe_workers (eng_executor (snd second_start))) = [0, 0, 1, 1] \<and>
   map Running (fe_heap (eng_executor (snd second_start))) = [True, True]"
  by code_simp

subsection \<open>Preparing and starting\<close>

lemma set_update_subset: "set (AList.update k v al) \<subseteq> insert (k, v) (set al)"
  by (induction al) auto

lemma prepare_nodes_frame:
  "prepare_nodes flow ns acc fe = (r, fe') \<Longrightarrow>
   fe_heap fe' = fe_heap fe \<and> fe_flows fe' = fe_flows fe \<and> fe_closed fe' = fe_closed fe \<and>
   fe_workers fe' = fe_workers fe \<and> fe_next_signal fe \<le> fe_next_signal fe'"
proof (induction ns arbitrary: acc fe)
  case Nil
  then show ?case by simp
next
  case (Cons node ns)
  show ?case
  proof (cases "fe_registry fe (node_Type node)")
    case None
    with Cons.prems show ?thesis
      by (simp add: Registry_CreateBlock_def)
  next
    case (Some factory)
    with Cons.prems obtain acc1 fe1 where
      "prepare_nodes flow ns acc1 fe1 = (r, fe')"
      "fe_heap fe1 = fe_heap fe" "fe_flows fe1 = fe_flows fe" "fe_closed fe1 = fe_closed fe"
      "fe_workers fe1 = fe_workers fe" "fe_next_signal fe \<le> fe_next_signal fe1"
      by (simp add: Registry_CreateBlock_def GetBlockInfoByType_def make_signal_def log_def
          Let_def)
    with Cons.IH [of acc1 fe1] show ?thesis by force
  qed
qed

lemma prepare_nodes_empty:
  "prepare_nodes flow ns acc fe = (Inr nodes, fe') \<Longrightarrow>
   \<forall>p \<in> set acc. chan_buf (InputChan (snd p)) = [] \<Longrightarrow>
   \<forall>p \<in> set nodes. chan_buf (InputChan (snd p)) = []"
proof (induction ns arbitrary: acc fe)
  case Nil
  then show ?case by simp
next
  case (Cons node ns)
  show ?case
  proof (cases "fe_registry fe (node_Type node)")
    case None
    with Cons.prems show ?thesis
      by (simp add: Registry_CreateBlock_def)
  next
    case (Some factory)
    with Cons.prems(1) obtain rn fe1 where
      r: "prepare_nodes flow ns (AList.update (node_ID node) rn acc) fe1 = (Inr nodes, fe')"
      and e: "chan_buf (InputChan rn) = []"
      by (simp add: Registry_CreateBlock_def GetBlockInfoByType_def make_signal_def log_def
          Let_def make_chan_def)
    have "\<forall>p \<in> set (AList.update (node_ID node) rn acc). chan_buf (InputChan (snd p)) = []"
      using set_update_subset [of "node_ID node" rn acc] Cons.prems(2) e by auto
    from Cons.IH [OF r this] show ?thesis .
  qed
qed

text \<open>
  A successful \<open>PrepareAndStartFlow\<close> runs a new \<open>RuntimeFlow\<close> object, with a stop
  signal made in this call and with empty queues; its workers are new ones, added to those
  that were live. When the closed signals are among those made so far, the new signal is
  not closed.
\<close>

lemma PrepareAndStartFlow_started:
  assumes "PrepareAndStartFlow fe (Some f) = (None, fe')"
  shows "\<exists>a rf. fe_flows fe' (flow_ID f) = Some a \<and> deref fe' a = Some rf \<and>
           deref fe a = None \<and> Running rf \<and>
           rf_StopChan rf = fe_next_signal fe \<and>
           ((\<forall>c \<in> fe_closed fe. c < fe_next_signal fe) \<longrightarrow> rf_StopChan rf \<notin> fe_closed fe') \<and>
           fe_workers fe' =
             fe_workers fe @
             map (\<lambda>(k, node). \<lparr>wk_flow = a, wk_node = k, wk_phase = Spawned\<rparr>) (rf_Nodes rf) \<and>
           (\<forall>p \<in> set (rf_Nodes rf). chan_buf (InputChan (snd p)) = [])"
proof -
  from assms obtain a fe1 where p: "PrepareFlow fe (Some f) = (Inr a, fe1)"
    and s: "StartFlow (fe1\<lparr>fe_flows := (fe_flows fe1)(flow_ID f \<mapsto> a)\<rparr>) (flow_ID f)
              = (None, fe')"
    by (auto simp: PrepareAndStartFlow_def split: prod.splits sum.splits)
  define fe0 where "fe0 = fe\<lparr>fe_next_signal := Suc (fe_next_signal fe)\<rparr>"
  from p obtain nodes fe2 where
    n: "prepare_nodes f (flow_Nodes f) [] fe0 = (Inr nodes, fe2)"
    and a: "a = length (fe_heap fe2)"
    and h: "fe_heap fe1 = fe_heap fe2 @
                  [\<lparr>rf_ID = flow_ID f, rf_Name = flow_Name f, rf_Nodes = nodes,
                    rf_Connections = flow_Connections f, rf_StopChan = fe_next_signal fe,
                    rf_WaitGroup = 0, Running = False\<rparr>]"
    and w: "fe_workers fe1 = fe_workers fe2" and c: "fe_closed fe1 = fe_closed fe2"
    by (auto simp: PrepareFlow_def make_signal_def fe0_def
        split: option.splits prod.splits sum.splits)
  from prepare_nodes_frame [OF n]
  have h2: "fe_heap fe2 = fe_heap fe" and w2: "fe_workers fe2 = fe_workers fe"
    and c2: "fe_closed fe2 = fe_closed fe"
    by (simp_all add: fe0_def)
  from prepare_nodes_empty [OF n] have e: "\<forall>p \<in> set nodes. chan_buf (InputChan (snd p)) = []"
    by simp
  let ?rf = "\<lparr>rf_ID = flow_ID f, rf_Name = flow_Name f, rf_Nodes = nodes,
                    rf_Connections = flow_Connections f, rf_StopChan = fe_next_signal fe,
                    rf_WaitGroup = length nodes, Running = True\<rparr>"
  from s a h w c have "fe_flows fe' (flow_ID f) = Some a \<and> deref fe' a = Some ?rf \<and>
      fe_closed fe' = fe_closed fe2 \<and>
      fe_workers fe' = fe_workers fe2 @
        map (\<lambda>(k, node). \<lparr>wk_flow = a, wk_node = k, wk_phase = Spawned\<rparr>) nodes"
    by (auto simp: StartFlow_def deref_def store_flow_def log_def Let_def)
  moreover have "deref fe a = None" using a h2 by (simp add: deref_def)
  ultimately show ?thesis using e w2 c2 by auto
qed

text \<open>
  \<open>TriggerFlow\<close> is \<open>Engine.StartFlow\<close> whatever message it is given, and when it
  succeeds the flow runs on a new object whose queues are all empty: the message has
  entered no queue.
\<close>

lemma TriggerFlow_only_starts:
  "TriggerFlow e flowID input = Engine_StartFlow e flowID \<and>
   (\<forall>e'. TriggerFlow e flowID input = (None, e') \<longrightarrow>
      (\<exists>f a rf. eng_storage e flowID = Some f \<and>
         fe_flows (eng_executor e') (flow_ID f) = Some a \<and>
         deref (eng_executor e') a = Some rf \<and> deref (eng_executor e) a = None \<and> Running rf \<and>
         (\<forall>p \<in> set (rf_Nodes rf). chan_buf (InputChan (snd p)) = [])))"
proof (intro conjI allI impI)
  show "TriggerFlow e flowID input = Engine_StartFlow e flowID"
    by (simp add: TriggerFlow_def)
next
  fix e' assume "TriggerFlow e flowID input = (None, e')"
  then have s: "Engine_StartFlow e flowID = (None, e')" by (simp add: TriggerFlow_def)
  then obtain f fe' where f: "eng_storage e flowID = Some f"
    and p: "PrepareAndStartFlow (eng_executor e) (Some f) = (None, fe')"
    and e': "eng_executor e' = fe'"
    by (auto simp: Engine_StartFlow_def LoadFlow_def split: option.splits prod.splits)
  from PrepareAndStartFlow_started [OF p] f e'
  show "\<exists>f a rf. eng_storage e flowID = Some f \<and>
         fe_flows (eng_executor e') (flow_ID f) = Some a \<and>
         deref (eng_executor e') a = Some rf \<and> deref (eng_executor e) a = None \<and> Running rf \<and>
         (\<forall>p \<in> set (rf_Nodes rf). chan_buf (InputChan (snd p)) = [])"
    by auto
qed

text \<open>
  C9. The example flow is triggered with the example message, whose payload is 42. The
  call succeeds and is the very call \<open>Engine.StartFlow\<close>, as it is when no message is
  given: the flow is prepared and started, every input queue of the new runtime flow is
  empty, and no block has been executed. The payload has not entered the graph.
\<close>

theorem TriggerFlow_ignores_message:
  "msg_Payload demo_msg = Num 42 \<and> fst triggered = None \<and>
   triggered = Engine_StartFlow demo_engine ''f1'' \<and>
   triggered = TriggerFlow demo_engine ''f1'' None \<and>
   map Running (fe_heap (eng_executor (snd triggered))) = [True] \<and>
   concat (map (chan_buf \<circ> InputChan \<circ> snd)
             (concat (map rf_Nodes (fe_heap (eng_executor (snd triggered)))))) = [] \<and>
   fe_calls (eng_executor (snd triggered)) = []"
proof -
  have a: "triggered = Engine_StartFlow demo_engine ''f1''"
    "triggered = TriggerFlow demo_engine ''f1'' None"
    by (simp_all add: triggered_def TriggerFlow_def)
  have b: "msg_Payload demo_msg = Num 42 \<and> fst triggered = None \<and>
   map Running (fe_heap (eng_executor (snd triggered))) = [True] \<and>
   concat (map (chan_buf \<circ> InputChan \<circ> snd)
             (concat (map rf_Nodes (fe_heap (eng_executor (snd triggered)))))) = [] \<and>
   fe_calls (eng_executor (snd triggered)) = []"
    by code_simp
  from a b show ?thesis by simp
qed

text \<open>
  C8. The example flow is prepared and started, stopped, and started again with
  \<open>StartFlow\<close>. The stop has closed the flow's stop signal and all workers have returned.
  The second start succeeds on the same \<open>RuntimeFlow\<close> object: the flow is running
  again, its stop signal is the one of the first run and is closed, and the two workers
  just spawned will find it closed at their first \<open>select\<close>. The next \<open>StopFlow\<close>
  closes the closed signal, which panics.
\<close>

theorem StartFlow_after_stop_reuses_closed_signal:
  "fst first_run = None \<and> fst first_stop = None \<and> fe_workers (snd first_stop) = [] \<and>
   fst restart = None \<and>
   map Running (fe_heap (snd restart)) = [True] \<and>
   map rf_StopChan (fe_heap (snd restart)) = map rf_StopChan (fe_heap (snd first_run)) \<and>
   set (map rf_StopChan (fe_heap (snd restart))) \<subseteq> fe_closed (snd restart) \<and>
   map wk_flow (fe_workers (snd restart)) = [0, 0] \<and>
   fst second_stop = Some (Panic ''close of closed channel'')"
  by code_simp

end
